theory Spec2Isabelle
  imports Complex_Main
begin

section \<open>Numbers and message texts\<close>

text \<open>
  The TypeScript sources compute with the JavaScript type \<open>number\<close>. The model uses exact
  rationals (\<open>rat\<close>) for every numeric field, so that fractional inputs such as
  \<open>durationMs / 60000\<close> are covered; rounding of IEEE doubles, \<open>NaN\<close> and the infinities are
  outside the model. Timestamps are milliseconds since the epoch (\<open>int\<close>).

  A template literal such as \<^verbatim>\<open>`Rate limit exceeded: ${requestCount}/${max}`\<close> is
  kept as the list of its pieces, so no number formatting has to be invented.
\<close>

datatype piece =
    S string        \<comment> \<open>literal text\<close>
  | N rat           \<comment> \<open>\<^verbatim>\<open>${x}\<close> of a number\<close>
  | Rounded rat     \<comment> \<open>\<^verbatim>\<open>${Math.round(x)}\<close>\<close>
  | Fixed0 rat      \<comment> \<open>\<^verbatim>\<open>${x.toFixed(0)}\<close>\<close>
  | Joined "string list"  \<comment> \<open>\<^verbatim>\<open>${xs.join(', ')}\<close>\<close>

type_synonym msg = "piece list"

text \<open>JavaScript's \<open>a || d\<close> on a table lookup: \<open>undefined\<close> and \<open>0\<close> are falsy.\<close>

definition or_default :: "rat option \<Rightarrow> rat \<Rightarrow> rat" where
  "or_default v d = (case v of None \<Rightarrow> d | Some x \<Rightarrow> if x = 0 then d else x)"

section \<open>Reward calculator (\<open>_shared/reward-calculator.ts\<close>)\<close>

record MatchData =
  md_placement :: rat
  md_playerCount :: rat
  md_kills :: rat
  md_durationMs :: rat
  md_antiCheatPassed :: bool
  md_botConfidence :: rat

record RewardBreakdown =
  rb_base :: rat
  rb_placement :: rat
  rb_kills :: rat
  rb_survival :: rat
  rb_penalties :: rat
  rb_final :: rat

record RewardCalculation =
  baseReward :: rat
  placementMultiplier :: rat
  killBonus :: rat
  survivalBonus :: rat
  antiCheatModifier :: rat
  totalReward :: rat
  breakdown :: RewardBreakdown

definition BASE_REWARD :: "rat \<Rightarrow> rat option" where
  "BASE_REWARD n =
     (if n = 2 then Some 10 else if n = 3 then Some 15 else if n = 5 then Some 25 else None)"

definition PLACEMENT_MULTIPLIERS :: "rat \<Rightarrow> rat option" where
  "PLACEMENT_MULTIPLIERS p =
     (if p = 1 then Some 2
      else if p = 2 then Some 1
      else if p = 3 then Some (1 / 2)
      else if p = 4 then Some (1 / 4)
      else if p = 5 then Some (1 / 10)
      else None)"

definition KILL_BONUS :: rat where "KILL_BONUS = 5"
definition SURVIVAL_BONUS_PER_MINUTE :: rat where "SURVIVAL_BONUS_PER_MINUTE = 2"
definition MAX_SURVIVAL_BONUS :: rat where "MAX_SURVIVAL_BONUS = 20"
definition SUSPICIOUS_PENALTY :: rat where "SUSPICIOUS_PENALTY = 1 / 2"
definition FAILED_ANTICHEAT_PENALTY :: rat where "FAILED_ANTICHEAT_PENALTY = 0"
definition MAX_REWARD_PER_MATCH :: rat where "MAX_REWARD_PER_MATCH = 1000"
definition MIN_REWARD :: rat where "MIN_REWARD = 0"

definition calculateReward :: "MatchData \<Rightarrow> RewardCalculation" where
  "calculateReward m =
     (let baseReward = or_default (BASE_REWARD (md_playerCount m)) 10;
          placementMultiplier = or_default (PLACEMENT_MULTIPLIERS (md_placement m)) (1 / 10);
          killBonus = md_kills m * KILL_BONUS;
          survivalMinutes = md_durationMs m / 60000;
          survivalBonus = min (survivalMinutes * SURVIVAL_BONUS_PER_MINUTE) MAX_SURVIVAL_BONUS;
          antiCheatModifier =
            (if \<not> md_antiCheatPassed m then FAILED_ANTICHEAT_PENALTY
             else if md_botConfidence m \<ge> 7 / 10 then SUSPICIOUS_PENALTY
             else 1);
          baseWithPlacement = baseReward * placementMultiplier;
          withBonuses = baseWithPlacement + killBonus + survivalBonus;
          withModifier = withBonuses * antiCheatModifier;
          total = min (max withModifier MIN_REWARD) MAX_REWARD_PER_MATCH;
          penalties = withBonuses - (withBonuses * antiCheatModifier)
      in \<lparr> baseReward = baseReward,
           placementMultiplier = placementMultiplier,
           killBonus = killBonus,
           survivalBonus = survivalBonus,
           antiCheatModifier = antiCheatModifier,
           totalReward = total,
           breakdown = \<lparr> rb_base = baseReward,
                         rb_placement = baseWithPlacement - baseReward,
                         rb_kills = killBonus,
                         rb_survival = survivalBonus,
                         rb_penalties = - penalties,
                         rb_final = total \<rparr> \<rparr>)"

section \<open>The persistent store and its failures\<close>

text \<open>
  The Supabase tables of \<open>docs/MCP_SECURITY_TABLES.sql\<close>. \<open>mcp_nonces.nonce\<close> is declared
  \<open>UNIQUE\<close>, so the nonce table is a map from the nonce value to its row. The other tables
  are lists in insertion order; \<open>mcp_processed_matches.match_id\<close> is \<open>UNIQUE\<close> too, which
  the insert enforces.
\<close>

record nonce_row =
  nr_wallet_address :: string
  nr_used_at :: int

record rate_limit_row =
  rl_wallet_address :: string
  rl_endpoint :: string
  rl_created_at :: int

datatype usage_type = UsageReward | UsageMatch

record daily_usage_row =
  du_wallet_address :: string
  du_usage_type :: usage_type
  du_amount :: rat
  du_match_id :: string
  du_created_at :: int

record processed_match_row =
  pm_match_id :: string
  pm_wallet_address :: string
  pm_placement :: rat
  pm_reward_amount :: rat
  pm_tx_hash :: "string option"
  pm_processed_at :: int

record store =
  mcp_nonces :: "string \<rightharpoonup> nonce_row"
  mcp_rate_limits :: "rate_limit_row list"
  mcp_daily_usage :: "daily_usage_row list"
  mcp_processed_matches :: "processed_match_row list"

definition empty_store :: store where
  "empty_store = \<lparr> mcp_nonces = Map.empty, mcp_rate_limits = [], mcp_daily_usage = [],
                     mcp_processed_matches = [] \<rparr>"

text \<open>
  What one request sees of the outside world: the clock (\<open>Date.now()\<close>, one reading per
  request) and, for every store round trip of the code, whether it comes back with an
  error (any error other than the two the code recognises by their codes, \<open>PGRST116\<close> and
  \<open>23505\<close>, which arise from the rows themselves). The client returns errors as values
  and does not throw, so the \<open>catch\<close> blocks of the sources have no counterpart. Requests
  are handled one after the other.
\<close>

record env =
  now :: int
  nonce_select_fails :: bool
  nonce_insert_fails :: bool
  nonce_cleanup_fails :: bool
  rate_count_fails :: bool
  rate_insert_fails :: bool
  match_usage_select_fails :: bool
  reward_usage_select_fails :: bool
  usage_insert_fails :: bool
  match_select_fails :: bool
  match_insert_fails :: bool
  history_select_fails :: bool
  rapid_select_fails :: bool

text \<open>
  The result of \<^verbatim>\<open>.select(...).eq(...).single()\<close>: the row, the error \<open>PGRST116\<close> when
  not exactly one row matches, or another error.
\<close>

datatype 'a single_result = Row 'a | PGRST116 | QueryError

definition select_single :: "bool \<Rightarrow> 'a list \<Rightarrow> 'a single_result" where
  "select_single fails rows =
     (if fails then QueryError else case rows of [r] \<Rightarrow> Row r | _ \<Rightarrow> PGRST116)"

datatype insert_result = Inserted | UniqueViolation | InsertError

definition insert_nonce :: "env \<Rightarrow> store \<Rightarrow> string \<Rightarrow> nonce_row \<Rightarrow> insert_result \<times> store" where
  "insert_nonce e st nonce r =
     (if nonce_insert_fails e then (InsertError, st)
      else if mcp_nonces st nonce \<noteq> None then (UniqueViolation, st)
      else (Inserted, st\<lparr> mcp_nonces := (mcp_nonces st)(nonce \<mapsto> r) \<rparr>))"

text \<open>
  \<^verbatim>\<open>.delete().lt('used_at', expiryThreshold)\<close>. The source does not await it; the model
  applies it at once.
\<close>

definition delete_expired_nonces :: "env \<Rightarrow> store \<Rightarrow> int \<Rightarrow> store" where
  "delete_expired_nonces e st expiryThreshold =
     (if nonce_cleanup_fails e then st
      else st\<lparr> mcp_nonces := (\<lambda>k. case mcp_nonces st k of
                                     None \<Rightarrow> None
                                   | Some r \<Rightarrow> if nr_used_at r < expiryThreshold then None else Some r) \<rparr>)"

section \<open>Security module (\<open>_shared/mcp-security-db.ts\<close>)\<close>

record SecurityConfig =
  nonceExpiryMs :: int
  rateLimitWindowMs :: int
  rateLimitMaxRequests :: rat
  dailyRewardCap :: rat
  dailyMatchCap :: rat
  maxRewardPerMatch :: rat
  suspiciousThreshold :: rat
  banThreshold :: rat

definition DEFAULT_SECURITY_CONFIG :: SecurityConfig where
  "DEFAULT_SECURITY_CONFIG =
     \<lparr> nonceExpiryMs = 300000, rateLimitWindowMs = 60000, rateLimitMaxRequests = 30,
       dailyRewardCap = 5000, dailyMatchCap = 50, maxRewardPerMatch = 1000,
       suspiciousThreshold = 7 / 10, banThreshold = 9 / 10 \<rparr>"

record SecurityCheck =
  sc_name :: string
  sc_passed :: bool
  sc_details :: msg

record SecurityCheckResult =
  passed :: bool
  checks :: "SecurityCheck list"
  riskScore :: nat
  blockReason :: "msg option"

record RateLimitResult =
  rl_allowed :: bool
  rl_remaining :: rat
  rl_resetAt :: int
  rl_details :: msg

record DailyCapResult =
  dc_allowed :: bool
  dc_usedToday :: rat
  dc_remaining :: rat
  dc_resetAt :: int

record NonceCheckResult =
  valid :: bool
  reason :: string

definition checkAndConsumeNonce ::
  "env \<Rightarrow> store \<Rightarrow> string \<Rightarrow> string \<Rightarrow> SecurityConfig \<Rightarrow> NonceCheckResult \<times> store" where
  "checkAndConsumeNonce e st nonce walletAddress config =
     (let expiryThreshold = now e - nonceExpiryMs config in
      if nonce_select_fails e
      then (\<lparr> valid = False, reason = ''Database error during nonce check'' \<rparr>, st)
      else case mcp_nonces st nonce of
        Some existing \<Rightarrow>
          (\<lparr> valid = False, reason = ''Nonce already used (replay attack detected)'' \<rparr>, st)
      | None \<Rightarrow>
          (case insert_nonce e st nonce
                  \<lparr> nr_wallet_address = walletAddress, nr_used_at = now e \<rparr> of
             (UniqueViolation, st') \<Rightarrow>
               (\<lparr> valid = False, reason = ''Concurrent replay attack detected'' \<rparr>, st')
           | (InsertError, st') \<Rightarrow>
               (\<lparr> valid = False, reason = ''Failed to record nonce'' \<rparr>, st')
           | (Inserted, st') \<Rightarrow>
               (\<lparr> valid = True, reason = ''Nonce is fresh'' \<rparr>,
                delete_expired_nonces e st' expiryThreshold)))"

definition checkRateLimit ::
  "env \<Rightarrow> store \<Rightarrow> string \<Rightarrow> string \<Rightarrow> SecurityConfig \<Rightarrow> RateLimitResult \<times> store" where
  "checkRateLimit e st walletAddress endpoint config =
     (let windowStart = now e - rateLimitWindowMs config in
      if rate_count_fails e
      then (\<lparr> rl_allowed = True, rl_remaining = rateLimitMaxRequests config,
               rl_resetAt = now e + rateLimitWindowMs config,
               rl_details = [S ''Rate limit check failed, allowing request''] \<rparr>, st)
      else
        let requestCount = of_nat (length (filter
              (\<lambda>r. rl_wallet_address r = walletAddress \<and> rl_endpoint r = endpoint
                    \<and> rl_created_at r \<ge> windowStart) (mcp_rate_limits st)));
            remaining = max 0 (rateLimitMaxRequests config - requestCount - 1);
            resetAt = now e + rateLimitWindowMs config
        in if requestCount \<ge> rateLimitMaxRequests config
           then (\<lparr> rl_allowed = False, rl_remaining = 0, rl_resetAt = resetAt,
                    rl_details = [S ''Rate limit exceeded: '', N requestCount, S ''/'',
                                  N (rateLimitMaxRequests config)] \<rparr>, st)
           else (\<lparr> rl_allowed = True, rl_remaining = remaining, rl_resetAt = resetAt,
                    rl_details = [S ''Rate limit OK: '', N (requestCount + 1), S ''/'',
                                  N (rateLimitMaxRequests config)] \<rparr>,
                 if rate_insert_fails e then st
                 else st\<lparr> mcp_rate_limits := mcp_rate_limits st @
                        [\<lparr> rl_wallet_address = walletAddress, rl_endpoint = endpoint,
                           rl_created_at = now e \<rparr>] \<rparr>))"

text \<open>
  The day bucket. The source takes midnight of the server's local day, which on the
  UTC-configured edge runtime is the UTC calendar day.
\<close>

definition msPerDay :: int where "msPerDay = 86400000"

definition dayStart :: "int \<Rightarrow> int" where
  "dayStart t = (t div msPerDay) * msPerDay"

definition dayEnd :: "int \<Rightarrow> int" where
  "dayEnd t = dayStart t + msPerDay"

definition checkDailyCap ::
  "env \<Rightarrow> store \<Rightarrow> string \<Rightarrow> usage_type \<Rightarrow> rat \<Rightarrow> SecurityConfig \<Rightarrow> DailyCapResult" where
  "checkDailyCap e st walletAddress capType amount config =
     (let maxCap = (if capType = UsageReward then dailyRewardCap config else dailyMatchCap config) in
      if (if capType = UsageReward then reward_usage_select_fails e else match_usage_select_fails e)
      then \<lparr> dc_allowed = False, dc_usedToday = 0, dc_remaining = 0, dc_resetAt = dayEnd (now e) \<rparr>
      else
        let data = filter (\<lambda>r. du_wallet_address r = walletAddress \<and> du_usage_type r = capType
                          \<and> du_created_at r \<ge> dayStart (now e) \<and> du_created_at r < dayEnd (now e))
                     (mcp_daily_usage st);
            usedToday = foldl (\<lambda>sum row. sum + du_amount row) 0 data;
            remaining = max 0 (maxCap - usedToday)
        in if usedToday + amount > maxCap
           then \<lparr> dc_allowed = False, dc_usedToday = usedToday, dc_remaining = remaining,
                   dc_resetAt = dayEnd (now e) \<rparr>
           else \<lparr> dc_allowed = True, dc_usedToday = usedToday, dc_remaining = remaining - amount,
                   dc_resetAt = dayEnd (now e) \<rparr>)"

definition recordDailyUsage ::
  "env \<Rightarrow> store \<Rightarrow> string \<Rightarrow> usage_type \<Rightarrow> rat \<Rightarrow> string \<Rightarrow> store" where
  "recordDailyUsage e st walletAddress usageType amount matchId =
     (if usage_insert_fails e then st
      else st\<lparr> mcp_daily_usage := mcp_daily_usage st @
             [\<lparr> du_wallet_address = walletAddress, du_usage_type = usageType, du_amount = amount,
                du_match_id = matchId, du_created_at = now e \<rparr>] \<rparr>)"

record MatchUniqueness =
  unique :: bool
  mu_reason :: string

definition checkMatchUniqueness :: "env \<Rightarrow> store \<Rightarrow> string \<Rightarrow> MatchUniqueness" where
  "checkMatchUniqueness e st matchId =
     (case select_single (match_select_fails e)
             (filter (\<lambda>r. pm_match_id r = matchId) (mcp_processed_matches st)) of
        QueryError \<Rightarrow> \<lparr> unique = False, mu_reason = ''Database error during match check'' \<rparr>
      | Row data \<Rightarrow> \<lparr> unique = False, mu_reason = ''Match already processed (replay attack)'' \<rparr>
      | PGRST116 \<Rightarrow> \<lparr> unique = True, mu_reason = ''Match ID is unique'' \<rparr>)"

definition recordProcessedMatch ::
  "env \<Rightarrow> store \<Rightarrow> string \<Rightarrow> string \<Rightarrow> rat \<Rightarrow> rat \<Rightarrow> string option \<Rightarrow> store" where
  "recordProcessedMatch e st matchId walletAddress placement rewardAmount txHash =
     (if match_insert_fails e \<or> matchId \<in> set (map pm_match_id (mcp_processed_matches st))
      then st
      else st\<lparr> mcp_processed_matches := mcp_processed_matches st @
             [\<lparr> pm_match_id = matchId, pm_wallet_address = walletAddress,
                pm_placement = placement, pm_reward_amount = rewardAmount,
                pm_tx_hash = txHash, pm_processed_at = now e \<rparr>] \<rparr>)"

text \<open>The regular expression \<^verbatim>\<open>/^0x[a-fA-F0-9]{40}$/\<close>.\<close>

definition isHexDigit :: "char \<Rightarrow> bool" where
  "isHexDigit c = (c \<in> set ''0123456789abcdefABCDEF'')"

definition isEthereumAddress :: "string \<Rightarrow> bool" where
  "isEthereumAddress a = (length a = 42 \<and> take 2 a = ''0x'' \<and> list_all isHexDigit (drop 2 a))"

record WalletCheck =
  wc_valid :: bool
  wc_reason :: string

definition validateWalletAddress :: "string \<Rightarrow> WalletCheck" where
  "validateWalletAddress address =
     (if address = [] then \<lparr> wc_valid = False, wc_reason = ''Missing wallet address'' \<rparr>
      else if \<not> isEthereumAddress address
        then \<lparr> wc_valid = False, wc_reason = ''Invalid Ethereum address format'' \<rparr>
      else \<lparr> wc_valid = True, wc_reason = ''Valid Ethereum address'' \<rparr>)"

text \<open>
  JavaScript's \<open>blockReason || r\<close>: the left operand is kept unless it is \<open>undefined\<close> or the
  empty string.
\<close>

definition emptyPiece :: "piece \<Rightarrow> bool" where
  "emptyPiece p = (case p of S s \<Rightarrow> s = [] | Joined xs \<Rightarrow> xs = [] \<or> xs = [[]] | _ \<Rightarrow> False)"

definition or_reason :: "msg option \<Rightarrow> msg \<Rightarrow> msg option" where
  "or_reason b r =
     (case b of None \<Rightarrow> Some r | Some m \<Rightarrow> if list_all emptyPiece m then Some r else Some m)"

record SecurityParams =
  sp_walletAddress :: string
  sp_matchId :: string
  sp_nonce :: string
  sp_endpoint :: string
  sp_rewardAmount :: "rat option"
  sp_botConfidence :: "rat option"

definition performFullSecurityCheck ::
  "env \<Rightarrow> store \<Rightarrow> SecurityParams \<Rightarrow> SecurityConfig \<Rightarrow> SecurityCheckResult \<times> store" where
  "performFullSecurityCheck e st params config =
     (let \<comment> \<open>1. Wallet validation\<close>
          walletCheck = validateWalletAddress (sp_walletAddress params);
          checks1 = [\<lparr> sc_name = ''WALLET_VALIDATION'', sc_passed = wc_valid walletCheck,
                       sc_details = [S (wc_reason walletCheck)] \<rparr>];
          risk1 = (if \<not> wc_valid walletCheck then 100 else 0);
          block1 = (if \<not> wc_valid walletCheck then Some [S (wc_reason walletCheck)] else None);
          \<comment> \<open>2. Nonce check (replay prevention)\<close>
          (nonceCheck, st2) =
             checkAndConsumeNonce e st (sp_nonce params) (sp_walletAddress params) config;
          checks2 = checks1 @ [\<lparr> sc_name = ''REPLAY_PREVENTION'', sc_passed = valid nonceCheck,
                                 sc_details = [S (reason nonceCheck)] \<rparr>];
          risk2 = (if \<not> valid nonceCheck then risk1 + 50 else risk1);
          block2 = (if \<not> valid nonceCheck then or_reason block1 [S (reason nonceCheck)]
                    else block1);
          \<comment> \<open>3. Rate limiting\<close>
          (rateCheck, st3) =
             checkRateLimit e st2 (sp_walletAddress params) (sp_endpoint params) config;
          checks3 = checks2 @ [\<lparr> sc_name = ''RATE_LIMIT'', sc_passed = rl_allowed rateCheck,
                                 sc_details = rl_details rateCheck \<rparr>];
          risk3 = (if \<not> rl_allowed rateCheck then risk2 + 40 else risk2);
          block3 = (if \<not> rl_allowed rateCheck then or_reason block2 (rl_details rateCheck)
                    else block2);
          \<comment> \<open>4. Match uniqueness\<close>
          matchCheck = checkMatchUniqueness e st3 (sp_matchId params);
          checks4 = checks3 @ [\<lparr> sc_name = ''MATCH_UNIQUENESS'', sc_passed = unique matchCheck,
                                 sc_details = [S (mu_reason matchCheck)] \<rparr>];
          risk4 = (if \<not> unique matchCheck then risk3 + 60 else risk3);
          block4 = (if \<not> unique matchCheck then or_reason block3 [S (mu_reason matchCheck)]
                    else block3);
          \<comment> \<open>5. Daily match cap\<close>
          matchCapCheck = checkDailyCap e st3 (sp_walletAddress params) UsageMatch 1 config;
          checks5 = checks4 @ [\<lparr> sc_name = ''DAILY_MATCH_CAP'', sc_passed = dc_allowed matchCapCheck,
                                 sc_details =
                                   (if dc_allowed matchCapCheck
                                    then [S ''Matches today: '', N (dc_usedToday matchCapCheck),
                                          S ''/'', N (dailyMatchCap config)]
                                    else [S ''Daily match limit reached: '',
                                          N (dc_usedToday matchCapCheck),
                                          S ''/'', N (dailyMatchCap config)]) \<rparr>];
          risk5 = (if \<not> dc_allowed matchCapCheck then risk4 + 30 else risk4);
          block5 = (if \<not> dc_allowed matchCapCheck
                    then or_reason block4 [S ''Daily match limit exceeded''] else block4);
          \<comment> \<open>6. Daily reward cap and per-match cap (if reward amount provided)\<close>
          (checks6, risk6, block6) =
             (case sp_rewardAmount params of
                None \<Rightarrow> (checks5, risk5, block5)
              | Some rewardAmount \<Rightarrow>
                  let rewardCapCheck =
                        checkDailyCap e st3 (sp_walletAddress params) UsageReward rewardAmount config;
                      checksA = checks5 @
                        [\<lparr> sc_name = ''DAILY_REWARD_CAP'', sc_passed = dc_allowed rewardCapCheck,
                           sc_details =
                             (if dc_allowed rewardCapCheck
                              then [S ''Rewards today: '', N (dc_usedToday rewardCapCheck),
                                    S ''/'', N (dailyRewardCap config)]
                              else [S ''Daily reward limit reached: '',
                                    N (dc_usedToday rewardCapCheck),
                                    S ''/'', N (dailyRewardCap config)]) \<rparr>];
                      riskA = (if \<not> dc_allowed rewardCapCheck then risk5 + 30 else risk5);
                      blockA = (if \<not> dc_allowed rewardCapCheck
                                then or_reason block5 [S ''Daily reward limit exceeded'']
                                else block5)
                  in if rewardAmount > maxRewardPerMatch config
                     then (checksA @ [\<lparr> sc_name = ''PER_MATCH_CAP'', sc_passed = False,
                                         sc_details = [S ''Reward '', N rewardAmount,
                                                       S '' exceeds max '',
                                                       N (maxRewardPerMatch config)] \<rparr>],
                           riskA + 40,
                           or_reason blockA [S ''Per-match reward cap exceeded''])
                     else (checksA @ [\<lparr> sc_name = ''PER_MATCH_CAP'', sc_passed = True,
                                         sc_details = [S ''Reward '', N rewardAmount,
                                                       S '' within limit''] \<rparr>],
                           riskA, blockA));
          \<comment> \<open>7. Bot detection (if confidence provided)\<close>
          (checks7, risk7, block7) =
             (case sp_botConfidence params of
                None \<Rightarrow> (checks6, risk6, block6)
              | Some botConfidence \<Rightarrow>
                  let isBanned = (botConfidence \<ge> banThreshold config);
                      isSuspicious = (botConfidence \<ge> suspiciousThreshold config);
                      checksB = checks6 @
                        [\<lparr> sc_name = ''BOT_DETECTION'', sc_passed = (\<not> isBanned),
                           sc_details =
                             (if isBanned
                              then [S ''Bot confidence '', Fixed0 (botConfidence * 100),
                                    S ''% exceeds ban threshold'']
                              else if isSuspicious
                              then [S ''Bot confidence '', Fixed0 (botConfidence * 100),
                                    S ''% flagged for review'']
                              else [S ''Bot confidence '', Fixed0 (botConfidence * 100),
                                    S ''% OK'']) \<rparr>]
                  in if isBanned
                     then (checksB, risk6 + 50,
                           or_reason block6 [S ''Bot detection threshold exceeded''])
                     else if isSuspicious then (checksB, risk6 + 20, block6)
                     else (checksB, risk6, block6));
          allPassed = list_all sc_passed checks7
      in (\<lparr> passed = allPassed, checks = checks7, riskScore = min 100 risk7,
            blockReason = (if allPassed then None else block7) \<rparr>, st3))"

section \<open>Match validator (\<open>_shared/match-validator.ts\<close>)\<close>

record AntiCheat =
  inputTimingVariance :: rat
  frameCount :: rat
  avgTickRate :: rat
  suspiciousFlags :: "string list"

record MatchInput =
  mi_walletAddress :: string
  mi_matchId :: string
  mi_placement :: rat
  mi_playerCount :: rat
  mi_durationMs :: rat
  mi_kills :: rat
  mi_antiCheat :: AntiCheat

datatype ReasonCode =
    VALID
  | DURATION_TOO_SHORT
  | DURATION_TOO_LONG
  | DURATION_IMPOSSIBLE
  | ZERO_INPUT_VARIANCE
  | LOW_INPUT_VARIANCE
  | SUSPICIOUS_WIN_STREAK
  | EXCESSIVE_WIN_RATE
  | RAPID_MATCHES
  | FRAME_COUNT_MISMATCH
  | TICK_RATE_ANOMALY
  | KILL_COUNT_IMPOSSIBLE
  | PLACEMENT_INVALID
  | BOT_DETECTED

datatype severity = Info | Warning | Critical

record ValidationFlag =
  vf_code :: string
  vf_severity :: severity
  vf_message :: msg

text \<open>
  \<open>reasonCode\<close> is optional in a \<open>CheckResult\<close>; \<open>validateMatch\<close> copies it with a non-null
  assertion, so the result carries it as an option as well.
\<close>

record ValidationResult =
  allowed :: bool
  reasonCode :: "ReasonCode option"
  reasonMessage :: msg
  vr_riskScore :: nat
  flags :: "ValidationFlag list"

record CheckResult =
  cr_flags :: "ValidationFlag list"
  cr_riskScore :: nat
  cr_reject :: bool
  cr_reasonCode :: "ReasonCode option"
  cr_message :: msg

record DurationLimits =
  dl_min :: rat
  dl_max :: rat
  typical_min :: rat
  typical_max :: rat

definition DURATION :: "rat \<Rightarrow> DurationLimits option" where
  "DURATION n =
     (if n = 2 then Some \<lparr> dl_min = 10000, dl_max = 180000, typical_min = 20000, typical_max = 120000 \<rparr>
      else if n = 3 then Some \<lparr> dl_min = 15000, dl_max = 240000, typical_min = 30000, typical_max = 150000 \<rparr>
      else if n = 5 then Some \<lparr> dl_min = 20000, dl_max = 300000, typical_min = 45000, typical_max = 200000 \<rparr>
      else None)"

definition MIN_TIME_PER_KILL :: rat where "MIN_TIME_PER_KILL = 3000"
definition ZERO_THRESHOLD :: rat where "ZERO_THRESHOLD = 5"
definition LOW_THRESHOLD :: rat where "LOW_THRESHOLD = 30"
definition NORMAL_MAX :: rat where "NORMAL_MAX = 500"
definition MAX_CONSECUTIVE_WINS :: nat where "MAX_CONSECUTIVE_WINS = 10"
definition MAX_WIN_RATE_24H :: rat where "MAX_WIN_RATE_24H = 85 / 100"
definition MIN_MATCHES_FOR_RATE :: nat where "MIN_MATCHES_FOR_RATE = 5"
definition RAPID_MATCH_WINDOW_MS :: int where "RAPID_MATCH_WINDOW_MS = 60000"
definition MAX_RAPID_MATCHES :: nat where "MAX_RAPID_MATCHES = 3"
definition EXPECTED_TICK_RATE :: rat where "EXPECTED_TICK_RATE = 60"
definition TICK_RATE_TOLERANCE :: rat where "TICK_RATE_TOLERANCE = 3 / 10"

text \<open>\<open>RISK_THRESHOLDS\<close>: \<open>ALLOW: 50\<close>, \<open>FLAG: 75\<close>, \<open>REJECT: 100\<close>.\<close>

definition RISK_ALLOW :: nat where "RISK_ALLOW = 50"
definition RISK_FLAG :: nat where "RISK_FLAG = 75"
definition RISK_REJECT :: nat where "RISK_REJECT = 100"

definition validateDuration :: "MatchInput \<Rightarrow> CheckResult" where
  "validateDuration input =
     (case DURATION (mi_playerCount input) of
        None \<Rightarrow>
          \<lparr> cr_flags = [\<lparr> vf_code = ''INVALID_PLAYER_COUNT'', vf_severity = Critical,
                          vf_message = [S ''Invalid player count: '', N (mi_playerCount input)] \<rparr>],
            cr_riskScore = 100, cr_reject = True, cr_reasonCode = Some PLACEMENT_INVALID,
            cr_message = [S ''Invalid player count''] \<rparr>
      | Some config \<Rightarrow>
          if mi_durationMs input < dl_min config then
            \<lparr> cr_flags = [\<lparr> vf_code = ''DURATION_TOO_SHORT'', vf_severity = Critical,
                            vf_message = [S ''Duration '', N (mi_durationMs input),
                                          S ''ms below minimum '', N (dl_min config), S ''ms for '',
                                          N (mi_playerCount input), S '' players''] \<rparr>],
              cr_riskScore = 100, cr_reject = True, cr_reasonCode = Some DURATION_TOO_SHORT,
              cr_message = [S ''Match duration impossibly short ('',
                            Rounded (mi_durationMs input / 1000), S ''s)''] \<rparr>
          else if mi_durationMs input > dl_max config then
            \<lparr> cr_flags = [\<lparr> vf_code = ''DURATION_TOO_LONG'', vf_severity = Critical,
                            vf_message = [S ''Duration '', N (mi_durationMs input),
                                          S ''ms exceeds maximum '', N (dl_max config), S ''ms''] \<rparr>],
              cr_riskScore = 100, cr_reject = True, cr_reasonCode = Some DURATION_TOO_LONG,
              cr_message = [S ''Match duration exceeds maximum ('',
                            Rounded (mi_durationMs input / 1000), S ''s)''] \<rparr>
          else if mi_placement input = 1 \<and> mi_kills input > 0
                  \<and> mi_durationMs input < mi_kills input * MIN_TIME_PER_KILL then
            \<lparr> cr_flags = [\<lparr> vf_code = ''DURATION_IMPOSSIBLE'', vf_severity = Critical,
                            vf_message = [N (mi_kills input), S '' kills in '',
                                          N (mi_durationMs input), S ''ms is impossible (min '',
                                          N (mi_kills input * MIN_TIME_PER_KILL), S ''ms)''] \<rparr>],
              cr_riskScore = 100, cr_reject = True, cr_reasonCode = Some DURATION_IMPOSSIBLE,
              cr_message = [S ''Kill speed impossibly fast''] \<rparr>
          else
            let short = (mi_durationMs input < typical_min config);
                long = (mi_durationMs input > typical_max config)
            in \<lparr> cr_flags =
                   (if short then [\<lparr> vf_code = ''DURATION_UNUSUALLY_SHORT'', vf_severity = Warning,
                                     vf_message = [S ''Duration '', N (mi_durationMs input),
                                                   S ''ms is unusually short''] \<rparr>] else []) @
                   (if long then [\<lparr> vf_code = ''DURATION_UNUSUALLY_LONG'', vf_severity = Info,
                                    vf_message = [S ''Duration '', N (mi_durationMs input),
                                                  S ''ms is longer than typical''] \<rparr>] else []),
                 cr_riskScore = (if short then 15 else 0) + (if long then 5 else 0),
                 cr_reject = False, cr_reasonCode = None,
                 cr_message = [S ''Duration valid''] \<rparr>)"

definition validateInputVariance :: "MatchInput \<Rightarrow> CheckResult" where
  "validateInputVariance input =
     (let variance = inputTimingVariance (mi_antiCheat input) in
      if variance \<le> ZERO_THRESHOLD then
        \<lparr> cr_flags = [\<lparr> vf_code = ''ZERO_INPUT_VARIANCE'', vf_severity = Critical,
                        vf_message = [S ''Input timing variance '', N variance,
                                      S ''ms indicates automation''] \<rparr>],
          cr_riskScore = 100, cr_reject = True, cr_reasonCode = Some ZERO_INPUT_VARIANCE,
          cr_message = [S ''Automated input detected (zero timing variance)''] \<rparr>
      else
        let low = (variance \<le> LOW_THRESHOLD);
            winner = (mi_placement input = 1);
            high = (variance > NORMAL_MAX)
        in \<lparr> cr_flags =
               (if low then
                  [\<lparr> vf_code = ''LOW_INPUT_VARIANCE'', vf_severity = Warning,
                     vf_message = [S ''Input timing variance '', N variance,
                                   S ''ms is suspiciously consistent''] \<rparr>] @
                  (if winner then
                     [\<lparr> vf_code = ''LOW_VARIANCE_WINNER'', vf_severity = Warning,
                        vf_message = [S ''Low variance combined with 1st place finish''] \<rparr>]
                   else [])
                else []) @
               (if high then
                  [\<lparr> vf_code = ''HIGH_INPUT_VARIANCE'', vf_severity = Info,
                     vf_message = [S ''Input timing variance '', N variance,
                                   S ''ms is unusually high''] \<rparr>]
                else []),
             cr_riskScore = (if low then 35 + (if winner then 15 else 0) else 0)
                            + (if high then 10 else 0),
             cr_reject = False, cr_reasonCode = None,
             cr_message = [S ''Input variance acceptable''] \<rparr>)"

definition validateKillCount :: "MatchInput \<Rightarrow> CheckResult" where
  "validateKillCount input =
     (if mi_kills input \<ge> mi_playerCount input then
        \<lparr> cr_flags = [\<lparr> vf_code = ''KILL_COUNT_IMPOSSIBLE'', vf_severity = Critical,
                        vf_message = [N (mi_kills input), S '' kills impossible with '',
                                      N (mi_playerCount input), S '' players''] \<rparr>],
          cr_riskScore = 100, cr_reject = True, cr_reasonCode = Some KILL_COUNT_IMPOSSIBLE,
          cr_message = [S ''Kill count exceeds possible opponents''] \<rparr>
      else
        let lastPlace = (mi_kills input > 0 \<and> mi_placement input = mi_playerCount input);
            perfect = (mi_placement input = 1 \<and> mi_kills input = mi_playerCount input - 1);
            typicalMin = or_default (map_option typical_min (DURATION (mi_playerCount input))) 30000;
            fast = (mi_durationMs input < typicalMin)
        in \<lparr> cr_flags =
               (if lastPlace then
                  [\<lparr> vf_code = ''KILLS_AS_LAST_PLACE'', vf_severity = Warning,
                     vf_message = [N (mi_kills input), S '' kills but finished last place''] \<rparr>]
                else []) @
               (if perfect then
                  [\<lparr> vf_code = ''PERFECT_GAME'', vf_severity = Info,
                     vf_message = [S ''Perfect game (1st place, all kills)''] \<rparr>] @
                  (if fast then
                     [\<lparr> vf_code = ''FAST_PERFECT_GAME'', vf_severity = Warning,
                        vf_message = [S ''Perfect game completed unusually fast''] \<rparr>]
                   else [])
                else []),
             cr_riskScore = (if lastPlace then 10 else 0)
                            + (if perfect then 10 + (if fast then 20 else 0) else 0),
             cr_reject = False, cr_reasonCode = None,
             cr_message = [S ''Kill count valid''] \<rparr>)"

text \<open>
  \<open>frameRatio = frameCount / expectedFrames\<close>. For \<open>durationMs = 0\<close> JavaScript divides by
  zero: the ratio is an infinity (outside the band) for a non-zero frame count and \<open>NaN\<close>
  (both comparisons false) for a frame count of zero.
\<close>

definition validateFrameData :: "MatchInput \<Rightarrow> CheckResult" where
  "validateFrameData input =
     (let expectedTicks = EXPECTED_TICK_RATE;
          tolerance = TICK_RATE_TOLERANCE;
          minTick = expectedTicks * (1 - tolerance);
          maxTick = expectedTicks * (1 + tolerance);
          ac = mi_antiCheat input;
          tickAnomaly = (avgTickRate ac < minTick \<or> avgTickRate ac > maxTick);
          expectedFrames = (mi_durationMs input / 1000) * expectedTicks;
          frameRatio = frameCount ac / expectedFrames;
          mismatch = (if expectedFrames = 0 then frameCount ac \<noteq> 0
                      else frameRatio < 1 / 2 \<or> frameRatio > 2);
          reported = (length (suspiciousFlags ac) > 0)
      in \<lparr> cr_flags =
             (if tickAnomaly then
                [\<lparr> vf_code = ''TICK_RATE_ANOMALY'', vf_severity = Warning,
                   vf_message = [S ''Tick rate '', N (avgTickRate ac),
                                 S '' outside expected range '', N minTick, S ''-'', N maxTick] \<rparr>]
              else []) @
             (if mismatch then
                [\<lparr> vf_code = ''FRAME_COUNT_MISMATCH'', vf_severity = Warning,
                   vf_message = [S ''Frame count '', N (frameCount ac),
                                 S '' doesn't match duration (expected ~'',
                                 Rounded expectedFrames, S '')''] \<rparr>]
              else []) @
             (if reported then
                [\<lparr> vf_code = ''CLIENT_SUSPICIOUS_FLAGS'', vf_severity = Warning,
                   vf_message = [S ''Client reported: '', Joined (suspiciousFlags ac)] \<rparr>]
              else []),
           cr_riskScore = (if tickAnomaly then 15 else 0) + (if mismatch then 20 else 0)
                          + (if reported then length (suspiciousFlags ac) * 10 else 0),
           cr_reject = False, cr_reasonCode = None,
           cr_message = [S ''Frame data acceptable''] \<rparr>)"

text \<open>
  The history query: the wallet's processed matches of the last 24 hours, newest first, at
  most 50 rows; \<open>None\<close> when the store returns an error. The database leaves the order of
  rows with equal timestamps open; the model fixes one.
\<close>

definition select_recent_matches :: "env \<Rightarrow> store \<Rightarrow> string \<Rightarrow> processed_match_row list option" where
  "select_recent_matches e st walletAddress =
     (if history_select_fails e then None
      else Some (take 50 (rev (sort_key pm_processed_at
             (filter (\<lambda>r. pm_wallet_address r = walletAddress
                          \<and> pm_processed_at r \<ge> now e - 24 * 60 * 60 * 1000)
                (mcp_processed_matches st))))))"

text \<open>The loop that counts the leading wins and breaks at the first other placement.\<close>

fun countConsecutiveWins :: "processed_match_row list \<Rightarrow> nat \<Rightarrow> nat" where
  "countConsecutiveWins [] consecutiveWins = consecutiveWins"
| "countConsecutiveWins (m # ms) consecutiveWins =
     (if pm_placement m = 1 then countConsecutiveWins ms (consecutiveWins + 1)
      else consecutiveWins)"

definition analyzeWinPatterns :: "env \<Rightarrow> store \<Rightarrow> MatchInput \<Rightarrow> CheckResult" where
  "analyzeWinPatterns e st input =
     (case select_recent_matches e st (mi_walletAddress input) of
        None \<Rightarrow> \<lparr> cr_flags = [], cr_riskScore = 0, cr_reject = False, cr_reasonCode = None,
                  cr_message = [S ''Could not analyze patterns''] \<rparr>
      | Some recentMatches \<Rightarrow>
          if length recentMatches < MIN_MATCHES_FOR_RATE then
            \<lparr> cr_flags = [], cr_riskScore = 0, cr_reject = False, cr_reasonCode = None,
              cr_message = [S ''Insufficient history''] \<rparr>
          else
            let wins = length (filter (\<lambda>m. pm_placement m = 1) recentMatches);
                winRate = (of_nat wins :: rat) / of_nat (length recentMatches);
                excessive = (winRate > MAX_WIN_RATE_24H);
                flags1 = (if excessive then
                            [\<lparr> vf_code = ''EXCESSIVE_WIN_RATE'', vf_severity = Warning,
                               vf_message = [S ''Win rate '', Fixed0 (winRate * 100),
                                             S ''% in last 24h ('', N (of_nat wins), S ''/'',
                                             N (of_nat (length recentMatches)), S '')''] \<rparr>]
                          else []);
                risk1 = (if excessive then 25 else 0)
            in if mi_placement input = 1 then
                 let consecutiveWins = countConsecutiveWins recentMatches 0 + 1 in
                 if consecutiveWins \<ge> MAX_CONSECUTIVE_WINS then
                   let flags2 = flags1 @
                         [\<lparr> vf_code = ''SUSPICIOUS_WIN_STREAK'', vf_severity = Warning,
                            vf_message = [N (of_nat consecutiveWins), S '' consecutive wins''] \<rparr>]
                   in if consecutiveWins \<ge> MAX_CONSECUTIVE_WINS * 2 then
                        \<lparr> cr_flags = flags2, cr_riskScore = 100, cr_reject = True,
                          cr_reasonCode = Some SUSPICIOUS_WIN_STREAK,
                          cr_message = [S ''Impossible win streak ('', N (of_nat consecutiveWins),
                                        S '' in a row)''] \<rparr>
                      else
                        \<lparr> cr_flags = flags2, cr_riskScore = risk1 + 30, cr_reject = False,
                          cr_reasonCode = None, cr_message = [S ''Win patterns acceptable''] \<rparr>
                 else
                   \<lparr> cr_flags = flags1, cr_riskScore = risk1, cr_reject = False,
                     cr_reasonCode = None, cr_message = [S ''Win patterns acceptable''] \<rparr>
               else
                 \<lparr> cr_flags = flags1, cr_riskScore = risk1, cr_reject = False,
                   cr_reasonCode = None, cr_message = [S ''Win patterns acceptable''] \<rparr>)"

text \<open>The rapid-match query: the last five minutes, newest first, at most 10 rows.\<close>

definition select_rapid_matches :: "env \<Rightarrow> store \<Rightarrow> string \<Rightarrow> processed_match_row list option" where
  "select_rapid_matches e st walletAddress =
     (if rapid_select_fails e then None
      else Some (take 10 (rev (sort_key pm_processed_at
             (filter (\<lambda>r. pm_wallet_address r = walletAddress
                          \<and> pm_processed_at r \<ge> now e - RAPID_MATCH_WINDOW_MS * 5)
                (mcp_processed_matches st))))))"

fun countRapid :: "int \<Rightarrow> processed_match_row list \<Rightarrow> nat \<Rightarrow> nat" where
  "countRapid t [] rapidCount = rapidCount"
| "countRapid t (m # ms) rapidCount =
     countRapid t ms (if t - pm_processed_at m < RAPID_MATCH_WINDOW_MS then rapidCount + 1
                      else rapidCount)"

definition detectRapidMatches :: "env \<Rightarrow> store \<Rightarrow> MatchInput \<Rightarrow> CheckResult" where
  "detectRapidMatches e st input =
     (case select_rapid_matches e st (mi_walletAddress input) of
        None \<Rightarrow> \<lparr> cr_flags = [], cr_riskScore = 0, cr_reject = False, cr_reasonCode = None,
                  cr_message = [S ''Could not check rapid matches''] \<rparr>
      | Some recentMatches \<Rightarrow>
          let rapidCount = countRapid (now e) recentMatches 0 in
          if rapidCount \<ge> MAX_RAPID_MATCHES then
            \<lparr> cr_flags = [\<lparr> vf_code = ''RAPID_MATCHES'', vf_severity = Warning,
                            vf_message = [N (of_nat rapidCount), S '' matches in last '',
                                          Rounded (of_int RAPID_MATCH_WINDOW_MS / 1000), S ''s''] \<rparr>],
              cr_riskScore = 20, cr_reject = False, cr_reasonCode = None,
              cr_message = [S ''Match frequency acceptable''] \<rparr>
          else
            \<lparr> cr_flags = [], cr_riskScore = 0, cr_reject = False, cr_reasonCode = None,
              cr_message = [S ''Match frequency acceptable''] \<rparr>)"

definition rejected :: "CheckResult \<Rightarrow> ValidationFlag list \<Rightarrow> ValidationResult" where
  "rejected r fs = \<lparr> allowed = False, reasonCode = cr_reasonCode r, reasonMessage = cr_message r,
                    vr_riskScore = 100, flags = fs \<rparr>"

definition validateMatch :: "env \<Rightarrow> store \<Rightarrow> MatchInput \<Rightarrow> ValidationResult" where
  "validateMatch e st input =
     (let durationResult = validateDuration input;
          flags1 = cr_flags durationResult;
          risk1 = cr_riskScore durationResult
      in if cr_reject durationResult then rejected durationResult flags1
      else
      let varianceResult = validateInputVariance input;
          flags2 = flags1 @ cr_flags varianceResult;
          risk2 = risk1 + cr_riskScore varianceResult
      in if cr_reject varianceResult then rejected varianceResult flags2
      else
      let killResult = validateKillCount input;
          flags3 = flags2 @ cr_flags killResult;
          risk3 = risk2 + cr_riskScore killResult
      in if cr_reject killResult then rejected killResult flags3
      else
      let frameResult = validateFrameData input;
          flags4 = flags3 @ cr_flags frameResult;
          risk4 = risk3 + cr_riskScore frameResult;
          winPatternResult = analyzeWinPatterns e st input;
          flags5 = flags4 @ cr_flags winPatternResult;
          risk5 = risk4 + cr_riskScore winPatternResult
      in if cr_reject winPatternResult then rejected winPatternResult flags5
      else
      let rapidResult = detectRapidMatches e st input;
          flags6 = flags5 @ cr_flags rapidResult;
          risk6 = risk5 + cr_riskScore rapidResult;
          riskScore = min 100 risk6
      in if riskScore \<ge> RISK_REJECT then
           \<lparr> allowed = False, reasonCode = Some BOT_DETECTED,
             reasonMessage = [S ''Match rejected due to suspicious activity patterns''],
             vr_riskScore = riskScore, flags = flags6 \<rparr>
         else
           \<lparr> allowed = True, reasonCode = Some VALID,
             reasonMessage = (if riskScore \<ge> RISK_FLAG
                              then [S ''Match allowed but flagged for review'']
                              else [S ''Match validated successfully'']),
             vr_riskScore = riskScore, flags = flags6 \<rparr>)"

section \<open>Match submission endpoint (\<open>mcp-match-submit/index.ts\<close>)\<close>

text \<open>
  The handler is modelled from the point where the request is a \<open>POST\<close> whose body parsed as
  JSON with fields of the right JavaScript types; the \<open>typeof\<close> tests of
  \<open>validatePayloadStructure\<close> are discharged by the types of the record.
\<close>

record AntiCheatSignals =
  ac_inputHash :: string
  ac_frameCount :: rat
  ac_avgTickRate :: rat
  ac_suspiciousFlags :: "string list"
  ac_inputTimingVariance :: rat
  ac_movementHash :: string

record MatchResultPayload =
  walletAddress :: string
  matchId :: string
  placement :: rat
  playerCount :: rat
  durationMs :: rat
  kills :: rat
  antiCheat :: AntiCheatSignals
  timestamp :: int
  clientSignature :: string
  nonce :: string

record StructureCheck =
  st_valid :: bool
  st_error :: "string option"

definition validatePayloadStructure :: "env \<Rightarrow> MatchResultPayload \<Rightarrow> StructureCheck" where
  "validatePayloadStructure e p =
     (if \<not> isEthereumAddress (walletAddress p)
        then \<lparr> st_valid = False, st_error = Some ''Invalid wallet address format'' \<rparr>
      else if length (matchId p) < 32
        then \<lparr> st_valid = False, st_error = Some ''Invalid matchId format'' \<rparr>
      else if length (nonce p) < 32
        then \<lparr> st_valid = False, st_error = Some ''Invalid nonce format'' \<rparr>
      else if placement p < 1 \<or> placement p > 5
        then \<lparr> st_valid = False, st_error = Some ''Placement must be between 1 and 5'' \<rparr>
      else if playerCount p \<notin> {2, 3, 5}
        then \<lparr> st_valid = False, st_error = Some ''Player count must be 2, 3, or 5'' \<rparr>
      else if placement p > playerCount p
        then \<lparr> st_valid = False, st_error = Some ''Placement cannot exceed player count'' \<rparr>
      else if durationMs p < 0
        then \<lparr> st_valid = False, st_error = Some ''Invalid duration'' \<rparr>
      else if kills p < 0
        then \<lparr> st_valid = False, st_error = Some ''Invalid kill count'' \<rparr>
      else if \<bar>now e - timestamp p\<bar> > 300000
        then \<lparr> st_valid = False, st_error = Some ''Timestamp too old'' \<rparr>
      else \<lparr> st_valid = True, st_error = None \<rparr>)"

record ResponseData =
  rd_allowed :: bool
  rd_matchId :: string
  rd_placement :: rat
  rd_playerCount :: rat
  calculatedReward :: rat
  rd_reasonCode :: "ReasonCode option"
  rd_reasonMessage :: msg
  rd_riskScore :: nat
  validationFlags :: "ValidationFlag list"
  rewardBreakdown :: "RewardBreakdown option"
  securityChecks :: "SecurityCheck list option"

datatype response =
    BadRequest "string option"                     \<comment> \<open>status 400: the structure error\<close>
  | Forbidden "msg option" "SecurityCheck list" nat  \<comment> \<open>status 403: error, securityChecks, riskScore\<close>
  | Ok ResponseData                                \<comment> \<open>status 200\<close>

text \<open>The arguments of the handler's call of \<open>performFullSecurityCheck\<close>.\<close>

definition submitSecurityParams :: "MatchResultPayload \<Rightarrow> SecurityParams" where
  "submitSecurityParams payload =
     \<lparr> sp_walletAddress = walletAddress payload, sp_matchId = matchId payload,
       sp_nonce = nonce payload, sp_endpoint = ''match-submit'',
       sp_rewardAmount = None, sp_botConfidence = None \<rparr>"

definition submitMatchInput :: "MatchResultPayload \<Rightarrow> MatchInput" where
  "submitMatchInput payload =
     \<lparr> mi_walletAddress = walletAddress payload, mi_matchId = matchId payload,
       mi_placement = placement payload, mi_playerCount = playerCount payload,
       mi_durationMs = durationMs payload, mi_kills = kills payload,
       mi_antiCheat = \<lparr> inputTimingVariance = ac_inputTimingVariance (antiCheat payload),
                        frameCount = ac_frameCount (antiCheat payload),
                        avgTickRate = ac_avgTickRate (antiCheat payload),
                        suspiciousFlags = ac_suspiciousFlags (antiCheat payload) \<rparr> \<rparr>"

text \<open>The \<open>MatchData\<close> the handler derives from the payload and the validation result.\<close>

definition submitMatchData :: "MatchResultPayload \<Rightarrow> ValidationResult \<Rightarrow> MatchData" where
  "submitMatchData payload validationResult =
     \<lparr> md_placement = placement payload, md_playerCount = playerCount payload,
       md_kills = kills payload, md_durationMs = durationMs payload,
       md_antiCheatPassed = (vr_riskScore validationResult < 50),
       md_botConfidence = of_nat (vr_riskScore validationResult) / 100 \<rparr>"

definition matchSubmitHandler :: "env \<Rightarrow> store \<Rightarrow> MatchResultPayload \<Rightarrow> response \<times> store" where
  "matchSubmitHandler e st payload =
     (let structureCheck = validatePayloadStructure e payload in
      if \<not> st_valid structureCheck then (BadRequest (st_error structureCheck), st)
      else
        let (securityResult, st1) =
              performFullSecurityCheck e st (submitSecurityParams payload) DEFAULT_SECURITY_CONFIG
        in if \<not> passed securityResult
           then (Forbidden (blockReason securityResult) (checks securityResult)
                   (riskScore securityResult), st1)
           else
             let validationResult = validateMatch e st1 (submitMatchInput payload);
                 rewardCalculation =
                   (if allowed validationResult
                    then Some (calculateReward (submitMatchData payload validationResult))
                    else None);
                 reward = (case rewardCalculation of Some r \<Rightarrow> totalReward r | None \<Rightarrow> 0);
                 responseData =
                   \<lparr> rd_allowed = allowed validationResult,
                     rd_matchId = matchId payload,
                     rd_placement = placement payload,
                     rd_playerCount = playerCount payload,
                     calculatedReward = reward,
                     rd_reasonCode = reasonCode validationResult,
                     rd_reasonMessage = reasonMessage validationResult,
                     rd_riskScore = vr_riskScore validationResult,
                     validationFlags = flags validationResult,
                     rewardBreakdown = map_option breakdown rewardCalculation,
                     securityChecks = Some (checks securityResult) \<rparr>;
                 st2 = (if allowed validationResult
                        then recordProcessedMatch e
                               (recordDailyUsage e st1 (walletAddress payload) UsageMatch 1
                                  (matchId payload))
                               (matchId payload) (walletAddress payload) (placement payload)
                               reward None
                        else st1)
             in (Ok responseData, st2))"



section \<open>The security result in the words of the specification\<close>

text \<open>
  The specification describes the result of the security gate through the sub-checks that
  ran: each has a weight and a block message, and may have failed.
  \<open>subcheckOutcomes\<close> lists the sub-checks of one call in the fixed order (wallet format,
  nonce, rate limit, match uniqueness, daily match cap, the two reward caps when a reward
  amount is given, bot confidence when given), with the weights and block messages of the
  source. A sub-check has failed when the entry it pushes to \<open>checks\<close> has \<open>passed = false\<close>;
  for the bot check that is a confidence at or above the ban threshold.
\<close>

record outcome =
  oc_name :: string
  oc_failed :: bool
  oc_weight :: nat
  oc_message :: msg

definition subcheckOutcomes ::
  "env \<Rightarrow> store \<Rightarrow> SecurityParams \<Rightarrow> SecurityConfig \<Rightarrow> outcome list" where
  "subcheckOutcomes e st params config =
     (let walletCheck = validateWalletAddress (sp_walletAddress params);
          (nonceCheck, st2) =
             checkAndConsumeNonce e st (sp_nonce params) (sp_walletAddress params) config;
          (rateCheck, st3) =
             checkRateLimit e st2 (sp_walletAddress params) (sp_endpoint params) config;
          matchCheck = checkMatchUniqueness e st3 (sp_matchId params);
          matchCapCheck = checkDailyCap e st3 (sp_walletAddress params) UsageMatch 1 config
      in [\<lparr> oc_name = ''WALLET_VALIDATION'', oc_failed = (\<not> wc_valid walletCheck),
             oc_weight = 100, oc_message = [S (wc_reason walletCheck)] \<rparr>,
          \<lparr> oc_name = ''REPLAY_PREVENTION'', oc_failed = (\<not> valid nonceCheck),
             oc_weight = 50, oc_message = [S (reason nonceCheck)] \<rparr>,
          \<lparr> oc_name = ''RATE_LIMIT'', oc_failed = (\<not> rl_allowed rateCheck),
             oc_weight = 40, oc_message = rl_details rateCheck \<rparr>,
          \<lparr> oc_name = ''MATCH_UNIQUENESS'', oc_failed = (\<not> unique matchCheck),
             oc_weight = 60, oc_message = [S (mu_reason matchCheck)] \<rparr>,
          \<lparr> oc_name = ''DAILY_MATCH_CAP'', oc_failed = (\<not> dc_allowed matchCapCheck),
             oc_weight = 30, oc_message = [S ''Daily match limit exceeded''] \<rparr>]
         @ (case sp_rewardAmount params of
              None \<Rightarrow> []
            | Some rewardAmount \<Rightarrow>
                [\<lparr> oc_name = ''DAILY_REWARD_CAP'',
                   oc_failed = (\<not> dc_allowed (checkDailyCap e st3 (sp_walletAddress params)
                                                UsageReward rewardAmount config)),
                   oc_weight = 30,
                   oc_message = [S ''Daily reward limit exceeded''] \<rparr>,
                 \<lparr> oc_name = ''PER_MATCH_CAP'',
                   oc_failed = (rewardAmount > maxRewardPerMatch config),
                   oc_weight = 40,
                   oc_message = [S ''Per-match reward cap exceeded''] \<rparr>])
         @ (case sp_botConfidence params of
              None \<Rightarrow> []
            | Some botConfidence \<Rightarrow>
                [\<lparr> oc_name = ''BOT_DETECTION'',
                   oc_failed = (botConfidence \<ge> banThreshold config),
                   oc_weight = 50,
                   oc_message = [S ''Bot detection threshold exceeded''] \<rparr>]))"

definition failures :: "outcome list \<Rightarrow> outcome list" where
  "failures os = filter oc_failed os"

definition spec_passed :: "outcome list \<Rightarrow> bool" where
  "spec_passed os = (failures os = [])"


definition spec_blockReason :: "outcome list \<Rightarrow> msg option" where
  "spec_blockReason os = (case failures os of [] \<Rightarrow> None | x # _ \<Rightarrow> Some (oc_message x))"

text \<open>
  What the source adds to the risk score without failing a sub-check: 20 for a bot
  confidence that reaches the suspicious threshold but not the ban threshold.
\<close>

definition suspiciousWeight :: "SecurityParams \<Rightarrow> SecurityConfig \<Rightarrow> nat" where
  "suspiciousWeight params config =
     (case sp_botConfidence params of
        None \<Rightarrow> 0
      | Some botConfidence \<Rightarrow>
          if botConfidence \<ge> banThreshold config then 0
          else if botConfidence \<ge> suspiciousThreshold config then 20 else 0)"

section \<open>The security check as an accumulation over its sub-checks\<close>

text \<open>
  Every sub-check of \<open>performFullSecurityCheck\<close> appends one entry to \<open>checks\<close> and, when it
  fails, adds its weight to \<open>riskScore\<close> and offers its message to \<open>blockReason\<close>.
  \<open>addCheck\<close> is that step on the triple (checks, riskScore, blockReason); \<open>securityAcc\<close>
  is the triple at the end of the function. They serve the proofs only.
\<close>

type_synonym acc = "SecurityCheck list \<times> nat \<times> msg option"

definition addCheck :: "acc \<Rightarrow> string \<Rightarrow> bool \<Rightarrow> msg \<Rightarrow> nat \<Rightarrow> msg \<Rightarrow> acc" where
  "addCheck a n ok d w m =
     (case a of (cs, r, b) \<Rightarrow>
        (cs @ [\<lparr> sc_name = n, sc_passed = ok, sc_details = d \<rparr>],
         if \<not> ok then r + w else r,
         if \<not> ok then or_reason b m else b))"

definition addBotCheck :: "acc \<Rightarrow> rat \<Rightarrow> SecurityConfig \<Rightarrow> acc" where
  "addBotCheck a c config =
     (case a of (cs, r, b) \<Rightarrow>
        (cs @ [\<lparr> sc_name = ''BOT_DETECTION'', sc_passed = (\<not> c \<ge> banThreshold config),
                  sc_details =
                     (if c \<ge> banThreshold config
                      then [S ''Bot confidence '', Fixed0 (c * 100), S ''% exceeds ban threshold'']
                      else if c \<ge> suspiciousThreshold config
                      then [S ''Bot confidence '', Fixed0 (c * 100), S ''% flagged for review'']
                      else [S ''Bot confidence '', Fixed0 (c * 100), S ''% OK'']) \<rparr>],
         if c \<ge> banThreshold config then r + 50
         else if c \<ge> suspiciousThreshold config then r + 20 else r,
         if c \<ge> banThreshold config then or_reason b [S ''Bot detection threshold exceeded'']
         else b))"

definition securityAcc :: "env \<Rightarrow> store \<Rightarrow> SecurityParams \<Rightarrow> SecurityConfig \<Rightarrow> acc" where
  "securityAcc e st params config =
     (let walletCheck = validateWalletAddress (sp_walletAddress params);
          (nonceCheck, st2) =
             checkAndConsumeNonce e st (sp_nonce params) (sp_walletAddress params) config;
          (rateCheck, st3) =
             checkRateLimit e st2 (sp_walletAddress params) (sp_endpoint params) config;
          matchCheck = checkMatchUniqueness e st3 (sp_matchId params);
          matchCapCheck = checkDailyCap e st3 (sp_walletAddress params) UsageMatch 1 config;
          a1 = addCheck ([], 0, None) ''WALLET_VALIDATION'' (wc_valid walletCheck)
                 [S (wc_reason walletCheck)] 100 [S (wc_reason walletCheck)];
          a2 = addCheck a1 ''REPLAY_PREVENTION'' (valid nonceCheck)
                 [S (reason nonceCheck)] 50 [S (reason nonceCheck)];
          a3 = addCheck a2 ''RATE_LIMIT'' (rl_allowed rateCheck)
                 (rl_details rateCheck) 40 (rl_details rateCheck);
          a4 = addCheck a3 ''MATCH_UNIQUENESS'' (unique matchCheck)
                 [S (mu_reason matchCheck)] 60 [S (mu_reason matchCheck)];
          a5 = addCheck a4 ''DAILY_MATCH_CAP'' (dc_allowed matchCapCheck)
                 (if dc_allowed matchCapCheck
                  then [S ''Matches today: '', N (dc_usedToday matchCapCheck),
                        S ''/'', N (dailyMatchCap config)]
                  else [S ''Daily match limit reached: '', N (dc_usedToday matchCapCheck),
                        S ''/'', N (dailyMatchCap config)])
                 30 [S ''Daily match limit exceeded''];
          a6 = (case sp_rewardAmount params of
                  None \<Rightarrow> a5
                | Some rewardAmount \<Rightarrow>
                    let rewardCapCheck = checkDailyCap e st3 (sp_walletAddress params)
                                           UsageReward rewardAmount config
                    in addCheck
                         (addCheck a5 ''DAILY_REWARD_CAP'' (dc_allowed rewardCapCheck)
                            (if dc_allowed rewardCapCheck
                             then [S ''Rewards today: '', N (dc_usedToday rewardCapCheck),
                                   S ''/'', N (dailyRewardCap config)]
                             else [S ''Daily reward limit reached: '',
                                   N (dc_usedToday rewardCapCheck),
                                   S ''/'', N (dailyRewardCap config)])
                            30 [S ''Daily reward limit exceeded''])
                         ''PER_MATCH_CAP'' (\<not> rewardAmount > maxRewardPerMatch config)
                         (if rewardAmount > maxRewardPerMatch config
                          then [S ''Reward '', N rewardAmount, S '' exceeds max '',
                                N (maxRewardPerMatch config)]
                          else [S ''Reward '', N rewardAmount, S '' within limit''])
                         40 [S ''Per-match reward cap exceeded''])
      in (case sp_botConfidence params of
            None \<Rightarrow> a6
          | Some botConfidence \<Rightarrow> addBotCheck a6 botConfidence config))"

definition tracks :: "nat \<Rightarrow> acc \<Rightarrow> outcome list \<Rightarrow> bool" where
  "tracks x a os =
     (case a of (cs, r, b) \<Rightarrow>
        r = sum_list (map oc_weight (failures os)) + x \<and>
        b = spec_blockReason os \<and>
        list_all sc_passed cs = spec_passed os \<and>
        map sc_name cs = map oc_name os \<and>
        map sc_passed cs = map (\<lambda>x. \<not> oc_failed x) os \<and>
        (case b of None \<Rightarrow> True | Some m \<Rightarrow> \<not> list_all emptyPiece m))"

section \<open>Concrete inputs\<close>

text \<open>
  A clock reading with a store that answers every round trip, a well-formed wallet
  address, and match and nonce identifiers of 32 characters; the examples below are built
  from them.
\<close>

definition env0 :: env where
  "env0 = \<lparr> now = 1700000000000, nonce_select_fails = False, nonce_insert_fails = False,
            nonce_cleanup_fails = False, rate_count_fails = False, rate_insert_fails = False,
            match_usage_select_fails = False, reward_usage_select_fails = False,
            usage_insert_fails = False, match_select_fails = False, match_insert_fails = False,
            history_select_fails = False, rapid_select_fails = False \<rparr>"

definition wallet0 :: string where
  "wallet0 = ''0xaaaaaaaaaaaaaaaaaaaaaaaaaaaaaaaaaaaaaaaa''"

definition matchA :: string where
  "matchA = ''match-aaaaaaaaaaaaaaaaaaaaaaaaaa''"

definition matchB :: string where
  "matchB = ''match-bbbbbbbbbbbbbbbbbbbbbbbbbb''"

definition matchC :: string where
  "matchC = ''match-cccccccccccccccccccccccccc''"

definition nonceA :: string where
  "nonceA = ''nonce-aaaaaaaaaaaaaaaaaaaaaaaaaa''"

definition nonceB :: string where
  "nonceB = ''nonce-bbbbbbbbbbbbbbbbbbbbbbbbbb''"

definition paramsOf :: "string \<Rightarrow> string \<Rightarrow> SecurityParams" where
  "paramsOf m n = \<lparr> sp_walletAddress = wallet0, sp_matchId = m, sp_nonce = n,
                    sp_endpoint = ''match-submit'', sp_rewardAmount = None,
                    sp_botConfidence = None \<rparr>"

text \<open>
  Three security checks in a row: nonce A, then nonce B 400 seconds later, then nonce A
  again one millisecond after that.
\<close>

definition storeAfterA :: store where
  "storeAfterA =
     snd (performFullSecurityCheck env0 empty_store (paramsOf matchA nonceA) DEFAULT_SECURITY_CONFIG)"

definition storeAfterB :: store where
  "storeAfterB =
     snd (performFullSecurityCheck (env0\<lparr> now := 1700000400000 \<rparr>) storeAfterA
            (paramsOf matchB nonceB) DEFAULT_SECURITY_CONFIG)"

text \<open>
  Two match inputs that pass every hard check on an empty history: a 2-player win with one
  kill in 30 seconds and an input timing variance of 20 ms. With three client-reported
  flags the accumulated risk score is 90, without them 60.
\<close>

definition scoredInput :: "string list \<Rightarrow> MatchInput" where
  "scoredInput reported =
     \<lparr> mi_walletAddress = wallet0, mi_matchId = matchA, mi_placement = 1, mi_playerCount = 2,
       mi_durationMs = 30000, mi_kills = 1,
       mi_antiCheat = \<lparr> inputTimingVariance = 20, frameCount = 1800, avgTickRate = 60,
                        suspiciousFlags = reported \<rparr> \<rparr>"

text \<open>A history of twenty wins of \<open>wallet0\<close> within the hour before \<open>env0\<close>'s clock reading.\<close>

definition winRow :: "nat \<Rightarrow> processed_match_row" where
  "winRow i = \<lparr> pm_match_id = ''win-'' @ replicate i (CHR ''x''), pm_wallet_address = wallet0,
                pm_placement = 1, pm_reward_amount = 0, pm_tx_hash = None,
                pm_processed_at = 1699999000000 + int i \<rparr>"

definition winStore :: store where
  "winStore = empty_store\<lparr> mcp_processed_matches := map winRow [0..<20] \<rparr>"



section \<open>Properties of the reward calculator\<close>

lemma baseReward_pos: "0 < or_default (BASE_REWARD n) 10"
  by (simp add: or_default_def BASE_REWARD_def)

lemma placementMultiplier_pos: "0 < or_default (PLACEMENT_MULTIPLIERS p) (1 / 10)"
  by (simp add: or_default_def PLACEMENT_MULTIPLIERS_def)


text \<open>
  C6 (Scenario A). A 5-player win with 3 kills in 180000 ms, anti-cheat passed and bot
  confidence 0.1, yields base 25, multiplier 2, kill bonus 15, survival bonus 6, modifier 1,
  total 71 and the breakdown (25, 25, 15, 6, 0, 71).
\<close>

theorem calculateReward_scenario_A:
  "calculateReward \<lparr> md_placement = 1, md_playerCount = 5, md_kills = 3,
                     md_durationMs = 180000, md_antiCheatPassed = True,
                     md_botConfidence = 1 / 10 \<rparr>
   = \<lparr> baseReward = 25, placementMultiplier = 2, killBonus = 15, survivalBonus = 6,
       antiCheatModifier = 1, totalReward = 71,
       breakdown = \<lparr> rb_base = 25, rb_placement = 25, rb_kills = 15, rb_survival = 6,
                     rb_penalties = 0, rb_final = 71 \<rparr> \<rparr>"
  by (simp add: calculateReward_def Let_def or_default_def BASE_REWARD_def
      PLACEMENT_MULTIPLIERS_def KILL_BONUS_def SURVIVAL_BONUS_PER_MINUTE_def
      MAX_SURVIVAL_BONUS_def MIN_REWARD_def MAX_REWARD_PER_MATCH_def)

text \<open>
  C10. For kills and duration that are not negative, the breakdown's \<open>final\<close> is the total
  reward, and whenever the value before clamping,
  (base * multiplier + kill bonus + survival bonus) * modifier, is at most 1000, the five
  breakdown components add up to \<open>final\<close>.
\<close>

theorem calculateReward_breakdown_sum:
  assumes "0 \<le> md_kills m" and "0 \<le> md_durationMs m"
  shows "rb_final (breakdown (calculateReward m)) = totalReward (calculateReward m) \<and>
         ((baseReward (calculateReward m) * placementMultiplier (calculateReward m)
            + killBonus (calculateReward m) + survivalBonus (calculateReward m))
            * antiCheatModifier (calculateReward m) \<le> 1000
          \<longrightarrow> rb_base (breakdown (calculateReward m)) + rb_placement (breakdown (calculateReward m))
              + rb_kills (breakdown (calculateReward m)) + rb_survival (breakdown (calculateReward m))
              + rb_penalties (breakdown (calculateReward m))
              = rb_final (breakdown (calculateReward m)))"
proof -
  define b where "b = or_default (BASE_REWARD (md_playerCount m)) 10"
  define p where "p = or_default (PLACEMENT_MULTIPLIERS (md_placement m)) (1 / 10)"
  define k where "k = md_kills m * KILL_BONUS"
  define s where "s = min (md_durationMs m / 60000 * SURVIVAL_BONUS_PER_MINUTE) MAX_SURVIVAL_BONUS"
  define a where "a = (if \<not> md_antiCheatPassed m then FAILED_ANTICHEAT_PENALTY
                       else if md_botConfidence m \<ge> 7 / 10 then SUSPICIOUS_PENALTY else 1)"
  have bp: "0 \<le> b * p"
    using baseReward_pos [of "md_playerCount m"] placementMultiplier_pos [of "md_placement m"]
    by (simp add: b_def p_def)
  have k0: "0 \<le> k" using assms(1) by (simp add: k_def KILL_BONUS_def)
  have s0: "0 \<le> s"
    using assms(2) by (simp add: s_def SURVIVAL_BONUS_PER_MINUTE_def MAX_SURVIVAL_BONUS_def)
  have a0: "0 \<le> a"
    by (simp add: a_def FAILED_ANTICHEAT_PENALTY_def SUSPICIOUS_PENALTY_def)
  define x where "x = (b * p + k + s) * a"
  have "0 \<le> b * p + k + s" using bp k0 s0 by linarith
  then have nonneg: "0 \<le> x" unfolding x_def using a0 by (rule mult_nonneg_nonneg)
  have fields:
    "baseReward (calculateReward m) = b" "placementMultiplier (calculateReward m) = p"
    "killBonus (calculateReward m) = k" "survivalBonus (calculateReward m) = s"
    "antiCheatModifier (calculateReward m) = a"
    "totalReward (calculateReward m) = min (max x MIN_REWARD) MAX_REWARD_PER_MATCH"
    "rb_base (breakdown (calculateReward m)) = b"
    "rb_placement (breakdown (calculateReward m)) = b * p - b"
    "rb_kills (breakdown (calculateReward m)) = k"
    "rb_survival (breakdown (calculateReward m)) = s"
    "rb_penalties (breakdown (calculateReward m)) = - ((b * p + k + s) - x)"
    "rb_final (breakdown (calculateReward m)) = min (max x MIN_REWARD) MAX_REWARD_PER_MATCH"
    by (simp_all add: calculateReward_def Let_def b_def p_def k_def s_def a_def x_def)
  have clamp: "x \<le> 1000 \<Longrightarrow> min (max x MIN_REWARD) MAX_REWARD_PER_MATCH = x"
    using nonneg by (simp add: MIN_REWARD_def MAX_REWARD_PER_MATCH_def)
  have total: "b + (b * p - b) + k + s + - ((b * p + k + s) - x) = x"
    by simp
  show ?thesis
    unfolding fields x_def [symmetric] using clamp total by simp
qed

theorem calculateReward_breakdown_sum_witness:
  "let m = \<lparr> md_placement = 2, md_playerCount = 3, md_kills = 1, md_durationMs = 90000,
             md_antiCheatPassed = True, md_botConfidence = 4 / 5 \<rparr>
   in 0 \<le> md_kills m \<and> 0 \<le> md_durationMs m \<and>
      (baseReward (calculateReward m) * placementMultiplier (calculateReward m)
         + killBonus (calculateReward m) + survivalBonus (calculateReward m))
         * antiCheatModifier (calculateReward m) \<le> 1000 \<and>
      rb_base (breakdown (calculateReward m)) + rb_placement (breakdown (calculateReward m))
        + rb_kills (breakdown (calculateReward m)) + rb_survival (breakdown (calculateReward m))
        + rb_penalties (breakdown (calculateReward m))
        = rb_final (breakdown (calculateReward m)) \<and>
      rb_final (breakdown (calculateReward m)) = 23 / 2"
proof -
  let ?m = "\<lparr> md_placement = 2, md_playerCount = 3, md_kills = 1, md_durationMs = 90000,
             md_antiCheatPassed = True, md_botConfidence = 4 / 5 \<rparr>"
  have v: "calculateReward ?m =
       \<lparr> baseReward = 15, placementMultiplier = 1, killBonus = 5, survivalBonus = 3,
         antiCheatModifier = 1 / 2, totalReward = 23 / 2,
         breakdown = \<lparr> rb_base = 15, rb_placement = 0, rb_kills = 5, rb_survival = 3,
                       rb_penalties = - (23 / 2), rb_final = 23 / 2 \<rparr> \<rparr>"
    by (simp add: calculateReward_def Let_def or_default_def BASE_REWARD_def
      PLACEMENT_MULTIPLIERS_def KILL_BONUS_def SURVIVAL_BONUS_PER_MINUTE_def
      MAX_SURVIVAL_BONUS_def MIN_REWARD_def MAX_REWARD_PER_MATCH_def SUSPICIOUS_PENALTY_def
      FAILED_ANTICHEAT_PENALTY_def)
  show ?thesis
    unfolding Let_def v using calculateReward_breakdown_sum [of ?m] by simp
qed

section \<open>Properties of the security module\<close>

lemma nonce_reason_truthy:
  "reason (fst (checkAndConsumeNonce e st n w c)) \<noteq> []"
  by (simp add: checkAndConsumeNonce_def insert_nonce_def Let_def split: option.splits)

lemma rate_details_truthy:
  "\<not> list_all emptyPiece (rl_details (fst (checkRateLimit e st w ep c)))"
  by (simp add: checkRateLimit_def Let_def emptyPiece_def)

lemma match_reason_truthy:
  "mu_reason (checkMatchUniqueness e st m) \<noteq> []"
  by (simp add: checkMatchUniqueness_def split: single_result.splits)

lemma or_reason_None [simp]: "or_reason None r = Some r"
  by (simp add: or_reason_def)

lemma performFullSecurityCheck_acc:
  "fst (performFullSecurityCheck e st params config) =
     (case securityAcc e st params config of (cs, r, b) \<Rightarrow>
        \<lparr> passed = list_all sc_passed cs, checks = cs, riskScore = min 100 r,
          blockReason = (if list_all sc_passed cs then None else b) \<rparr>)"
proof -
  obtain nonceCheck st2 where nc:
    "checkAndConsumeNonce e st (sp_nonce params) (sp_walletAddress params) config = (nonceCheck, st2)"
    by (cases "checkAndConsumeNonce e st (sp_nonce params) (sp_walletAddress params) config")
  obtain rateCheck st3 where rc:
    "checkRateLimit e st2 (sp_walletAddress params) (sp_endpoint params) config = (rateCheck, st3)"
    by (cases "checkRateLimit e st2 (sp_walletAddress params) (sp_endpoint params) config")
  show ?thesis
  proof (cases "sp_rewardAmount params")
    case None
    note ra = this
    show ?thesis
    proof (cases "sp_botConfidence params")
      case None
      then show ?thesis
        unfolding performFullSecurityCheck_def securityAcc_def
        by (simp add: ra nc rc Let_def addCheck_def split del: if_split cong: if_cong)
    next
      case (Some c)
      then show ?thesis
        unfolding performFullSecurityCheck_def securityAcc_def
        by (cases "c \<ge> banThreshold config"; cases "c \<ge> suspiciousThreshold config")
           (simp_all add: ra nc rc Let_def addCheck_def addBotCheck_def split del: if_split cong: if_cong)
    qed
  next
    case (Some a)
    note ra = this
    show ?thesis
    proof (cases "sp_botConfidence params")
      case None
      then show ?thesis
        unfolding performFullSecurityCheck_def securityAcc_def
        by (cases "a > maxRewardPerMatch config")
           (simp_all add: ra nc rc Let_def addCheck_def split del: if_split cong: if_cong)
    next
      case (Some c)
      then show ?thesis
        unfolding performFullSecurityCheck_def securityAcc_def
        by (cases "a > maxRewardPerMatch config"; cases "c \<ge> banThreshold config";
            cases "c \<ge> suspiciousThreshold config")
           (simp_all add: ra nc rc Let_def addCheck_def addBotCheck_def split del: if_split cong: if_cong)
    qed
  qed
qed



lemma tracks_Nil: "tracks 0 ([], 0, None) []"
  by (simp add: tracks_def spec_blockReason_def spec_passed_def failures_def)

lemma tracks_addCheck:
  assumes "tracks 0 a os" and "\<not> list_all emptyPiece m"
  shows "tracks 0 (addCheck a n ok d w m)
           (os @ [\<lparr> oc_name = n, oc_failed = (\<not> ok), oc_weight = w, oc_message = m \<rparr>])"
proof -
  obtain cs r b where a: "a = (cs, r, b)" by (cases a)
  show ?thesis
    using assms
    by (cases "failures os"; cases ok)
       (simp_all add: a tracks_def addCheck_def spec_blockReason_def spec_passed_def
          failures_def or_reason_def)
qed

lemma tracks_addBotCheck:
  assumes "tracks 0 a os"
  shows "tracks (if c \<ge> banThreshold config then 0
                 else if c \<ge> suspiciousThreshold config then 20 else 0)
           (addBotCheck a c config)
           (os @ [\<lparr> oc_name = ''BOT_DETECTION'', oc_failed = (c \<ge> banThreshold config),
                     oc_weight = 50,
                     oc_message = [S ''Bot detection threshold exceeded''] \<rparr>])"
proof -
  obtain cs r b where a: "a = (cs, r, b)" by (cases a)
  show ?thesis
    using assms
    by (cases "failures os"; cases "c \<ge> banThreshold config";
        cases "c \<ge> suspiciousThreshold config")
       (simp_all add: a tracks_def addBotCheck_def spec_blockReason_def spec_passed_def
          failures_def or_reason_def emptyPiece_def)
qed

lemma wallet_reason_nonempty: "wc_reason (validateWalletAddress a) \<noteq> []"
  by (simp add: validateWalletAddress_def)

lemma truthy_S: "s \<noteq> [] \<Longrightarrow> \<not> list_all emptyPiece [S s]"
  by (simp add: emptyPiece_def)

lemma securityAcc_tracks:
  "tracks (suspiciousWeight params config) (securityAcc e st params config)
     (subcheckOutcomes e st params config)"
proof -
  obtain nonceCheck st2 where nc:
    "checkAndConsumeNonce e st (sp_nonce params) (sp_walletAddress params) config = (nonceCheck, st2)"
    by (cases "checkAndConsumeNonce e st (sp_nonce params) (sp_walletAddress params) config")
  obtain rateCheck st3 where rc:
    "checkRateLimit e st2 (sp_walletAddress params) (sp_endpoint params) config = (rateCheck, st3)"
    by (cases "checkRateLimit e st2 (sp_walletAddress params) (sp_endpoint params) config")
  define walletCheck where "walletCheck = validateWalletAddress (sp_walletAddress params)"
  define matchCheck where "matchCheck = checkMatchUniqueness e st3 (sp_matchId params)"
  define matchCapCheck where
    "matchCapCheck = checkDailyCap e st3 (sp_walletAddress params) UsageMatch 1 config"
  define a1 where "a1 = addCheck ([], 0, None) ''WALLET_VALIDATION'' (wc_valid walletCheck)
                 [S (wc_reason walletCheck)] 100 [S (wc_reason walletCheck)]"
  define a2 where "a2 = addCheck a1 ''REPLAY_PREVENTION'' (valid nonceCheck)
                 [S (reason nonceCheck)] 50 [S (reason nonceCheck)]"
  define a3 where "a3 = addCheck a2 ''RATE_LIMIT'' (rl_allowed rateCheck)
                 (rl_details rateCheck) 40 (rl_details rateCheck)"
  define a4 where "a4 = addCheck a3 ''MATCH_UNIQUENESS'' (unique matchCheck)
                 [S (mu_reason matchCheck)] 60 [S (mu_reason matchCheck)]"
  define a5 where "a5 = addCheck a4 ''DAILY_MATCH_CAP'' (dc_allowed matchCapCheck)
                 (if dc_allowed matchCapCheck
                  then [S ''Matches today: '', N (dc_usedToday matchCapCheck),
                        S ''/'', N (dailyMatchCap config)]
                  else [S ''Daily match limit reached: '', N (dc_usedToday matchCapCheck),
                        S ''/'', N (dailyMatchCap config)])
                 30 [S ''Daily match limit exceeded'']"
  define os5 where "os5 =
         [\<lparr> oc_name = ''WALLET_VALIDATION'', oc_failed = (\<not> wc_valid walletCheck),
             oc_weight = 100, oc_message = [S (wc_reason walletCheck)] \<rparr>,
          \<lparr> oc_name = ''REPLAY_PREVENTION'', oc_failed = (\<not> valid nonceCheck),
             oc_weight = 50, oc_message = [S (reason nonceCheck)] \<rparr>,
          \<lparr> oc_name = ''RATE_LIMIT'', oc_failed = (\<not> rl_allowed rateCheck),
             oc_weight = 40, oc_message = rl_details rateCheck \<rparr>,
          \<lparr> oc_name = ''MATCH_UNIQUENESS'', oc_failed = (\<not> unique matchCheck),
             oc_weight = 60, oc_message = [S (mu_reason matchCheck)] \<rparr>,
          \<lparr> oc_name = ''DAILY_MATCH_CAP'', oc_failed = (\<not> dc_allowed matchCapCheck),
             oc_weight = 30, oc_message = [S ''Daily match limit exceeded''] \<rparr>]"
  define a6 where "a6 = (case sp_rewardAmount params of
                  None \<Rightarrow> a5
                | Some rewardAmount \<Rightarrow>
                    addCheck
                      (addCheck a5 ''DAILY_REWARD_CAP''
                         (dc_allowed (checkDailyCap e st3 (sp_walletAddress params)
                                           UsageReward rewardAmount config))
                         (if dc_allowed (checkDailyCap e st3 (sp_walletAddress params)
                                           UsageReward rewardAmount config)
                          then [S ''Rewards today: '',
                                N (dc_usedToday (checkDailyCap e st3 (sp_walletAddress params)
                                           UsageReward rewardAmount config)),
                                S ''/'', N (dailyRewardCap config)]
                          else [S ''Daily reward limit reached: '',
                                N (dc_usedToday (checkDailyCap e st3 (sp_walletAddress params)
                                           UsageReward rewardAmount config)),
                                S ''/'', N (dailyRewardCap config)])
                         30 [S ''Daily reward limit exceeded''])
                      ''PER_MATCH_CAP'' (\<not> rewardAmount > maxRewardPerMatch config)
                      (if rewardAmount > maxRewardPerMatch config
                       then [S ''Reward '', N rewardAmount, S '' exceeds max '',
                             N (maxRewardPerMatch config)]
                       else [S ''Reward '', N rewardAmount, S '' within limit''])
                      40 [S ''Per-match reward cap exceeded''])"
  define os6 where "os6 = os5 @ (case sp_rewardAmount params of
              None \<Rightarrow> []
            | Some rewardAmount \<Rightarrow>
                [\<lparr> oc_name = ''DAILY_REWARD_CAP'',
                   oc_failed = (\<not> dc_allowed (checkDailyCap e st3 (sp_walletAddress params)
                                                UsageReward rewardAmount config)),
                   oc_weight = 30,
                   oc_message = [S ''Daily reward limit exceeded''] \<rparr>,
                 \<lparr> oc_name = ''PER_MATCH_CAP'',
                   oc_failed = (rewardAmount > maxRewardPerMatch config),
                   oc_weight = 40,
                   oc_message = [S ''Per-match reward cap exceeded''] \<rparr>])"
  define a7 where "a7 = (case sp_botConfidence params of
            None \<Rightarrow> a6
          | Some botConfidence \<Rightarrow> addBotCheck a6 botConfidence config)"
  define os7 where "os7 = os6 @ (case sp_botConfidence params of
              None \<Rightarrow> []
            | Some botConfidence \<Rightarrow>
                [\<lparr> oc_name = ''BOT_DETECTION'',
                   oc_failed = (botConfidence \<ge> banThreshold config),
                   oc_weight = 50,
                   oc_message = [S ''Bot detection threshold exceeded''] \<rparr>])"
  have r1: "\<not> list_all emptyPiece [S (wc_reason walletCheck)]"
    unfolding walletCheck_def by (rule truthy_S [OF wallet_reason_nonempty])
  have r2: "\<not> list_all emptyPiece [S (reason nonceCheck)]"
    using nonce_reason_truthy [of e st "sp_nonce params" "sp_walletAddress params" config]
    by (simp add: nc emptyPiece_def)
  have r3: "\<not> list_all emptyPiece (rl_details rateCheck)"
    using rate_details_truthy [of e st2 "sp_walletAddress params" "sp_endpoint params" config]
    by (simp add: rc)
  have r4: "\<not> list_all emptyPiece [S (mu_reason matchCheck)]"
    unfolding matchCheck_def by (rule truthy_S [OF match_reason_truthy])
  have r5: "\<not> list_all emptyPiece [S ''Daily match limit exceeded'']"
    "\<not> list_all emptyPiece [S ''Daily reward limit exceeded'']"
    "\<not> list_all emptyPiece [S ''Per-match reward cap exceeded'']"
    by (simp_all add: emptyPiece_def)
  have t1: "tracks 0 a1 [os5 ! 0]"
    using tracks_addCheck [OF tracks_Nil r1] by (simp add: a1_def os5_def)
  have t2: "tracks 0 a2 [os5 ! 0, os5 ! 1]"
    using tracks_addCheck [OF t1 r2] by (simp add: a2_def os5_def)
  have t3: "tracks 0 a3 [os5 ! 0, os5 ! 1, os5 ! 2]"
    using tracks_addCheck [OF t2 r3] by (simp add: a3_def os5_def)
  have t4: "tracks 0 a4 [os5 ! 0, os5 ! 1, os5 ! 2, os5 ! 3]"
    using tracks_addCheck [OF t3 r4] by (simp add: a4_def os5_def)
  have "tracks 0 a5 [os5 ! 0, os5 ! 1, os5 ! 2, os5 ! 3, os5 ! 4]"
    using tracks_addCheck [OF t4 r5(1)] by (simp add: a5_def os5_def)
  then have t5: "tracks 0 a5 os5"
    by (simp add: os5_def)
  have t6: "tracks 0 a6 os6"
  proof (cases "sp_rewardAmount params")
    case None
    then show ?thesis using t5 by (simp add: a6_def os6_def)
  next
    case (Some rewardAmount)
    let ?cap = "checkDailyCap e st3 (sp_walletAddress params) UsageReward rewardAmount config"
    let ?d1 = "if dc_allowed ?cap
               then [S ''Rewards today: '', N (dc_usedToday ?cap), S ''/'', N (dailyRewardCap config)]
               else [S ''Daily reward limit reached: '', N (dc_usedToday ?cap), S ''/'',
                     N (dailyRewardCap config)]"
    let ?d2 = "if rewardAmount > maxRewardPerMatch config
               then [S ''Reward '', N rewardAmount, S '' exceeds max '', N (maxRewardPerMatch config)]
               else [S ''Reward '', N rewardAmount, S '' within limit'']"
    have s1: "tracks 0 (addCheck a5 ''DAILY_REWARD_CAP'' (dc_allowed ?cap) ?d1 30
                        [S ''Daily reward limit exceeded''])
                (os5 @ [\<lparr> oc_name = ''DAILY_REWARD_CAP'', oc_failed = (\<not> dc_allowed ?cap),
                           oc_weight = 30,
                           oc_message = [S ''Daily reward limit exceeded''] \<rparr>])"
      by (rule tracks_addCheck [OF t5 r5(2)])
    have s2: "tracks 0 (addCheck (addCheck a5 ''DAILY_REWARD_CAP'' (dc_allowed ?cap) ?d1 30
                        [S ''Daily reward limit exceeded''])
                   ''PER_MATCH_CAP'' (\<not> rewardAmount > maxRewardPerMatch config) ?d2 40
                   [S ''Per-match reward cap exceeded''])
                ((os5 @ [\<lparr> oc_name = ''DAILY_REWARD_CAP'', oc_failed = (\<not> dc_allowed ?cap),
                           oc_weight = 30,
                           oc_message = [S ''Daily reward limit exceeded''] \<rparr>])
                  @ [\<lparr> oc_name = ''PER_MATCH_CAP'',
                       oc_failed = (\<not> \<not> rewardAmount > maxRewardPerMatch config),
                       oc_weight = 40,
                       oc_message = [S ''Per-match reward cap exceeded''] \<rparr>])"
      by (rule tracks_addCheck [OF s1 r5(3)])
    show ?thesis
      using s2 by (simp add: a6_def os6_def Some split del: if_split cong: if_cong)
  qed
  have t7: "tracks (suspiciousWeight params config) a7 os7"
  proof (cases "sp_botConfidence params")
    case None
    then show ?thesis using t6 by (simp add: a7_def os7_def suspiciousWeight_def)
  next
    case (Some c)
    show ?thesis
      using tracks_addBotCheck [OF t6, of config c]
      by (simp add: a7_def os7_def Some suspiciousWeight_def split del: if_split cong: if_cong)
  qed
  have A: "securityAcc e st params config = a7"
    unfolding securityAcc_def Let_def nc rc prod.case a7_def a6_def a5_def a4_def a3_def a2_def
      a1_def walletCheck_def matchCheck_def matchCapCheck_def
    by (rule refl)
  have B: "subcheckOutcomes e st params config = os7"
    unfolding subcheckOutcomes_def Let_def nc rc prod.case os7_def os6_def os5_def
      walletCheck_def matchCheck_def matchCapCheck_def
    by simp
  show ?thesis
    using t7 by (simp only: A B)
qed



lemma performFullSecurityCheck_tracks:
  "passed (fst (performFullSecurityCheck e st params config))
     = spec_passed (subcheckOutcomes e st params config) \<and>
   riskScore (fst (performFullSecurityCheck e st params config))
     = min 100 (sum_list (map oc_weight (failures (subcheckOutcomes e st params config)))
                + suspiciousWeight params config) \<and>
   blockReason (fst (performFullSecurityCheck e st params config))
     = spec_blockReason (subcheckOutcomes e st params config) \<and>
   map sc_name (checks (fst (performFullSecurityCheck e st params config)))
     = map oc_name (subcheckOutcomes e st params config) \<and>
   map sc_passed (checks (fst (performFullSecurityCheck e st params config)))
     = map (\<lambda>x. \<not> oc_failed x) (subcheckOutcomes e st params config)"
proof -
  obtain cs r b where a: "securityAcc e st params config = (cs, r, b)"
    by (cases "securityAcc e st params config")
  have t: "tracks (suspiciousWeight params config) (cs, r, b) (subcheckOutcomes e st params config)"
    using securityAcc_tracks [of params config e st] by (simp add: a)
  have p: "spec_passed (subcheckOutcomes e st params config) \<Longrightarrow>
           spec_blockReason (subcheckOutcomes e st params config) = None"
    by (simp add: spec_passed_def spec_blockReason_def)
  show ?thesis
    using t p
    by (simp add: performFullSecurityCheck_acc a tracks_def)
qed

lemma performFullSecurityCheck_store:
  "snd (performFullSecurityCheck e st params config)
     = snd (checkRateLimit e
              (snd (checkAndConsumeNonce e st (sp_nonce params) (sp_walletAddress params) config))
              (sp_walletAddress params) (sp_endpoint params) config)"
  unfolding performFullSecurityCheck_def Let_def split_beta
  by (rule snd_conv)



lemma securityAcc_checks5:
  "take 5 (fst (securityAcc e st params config)) =
     (let walletCheck = validateWalletAddress (sp_walletAddress params);
          nc = checkAndConsumeNonce e st (sp_nonce params) (sp_walletAddress params) config;
          rc = checkRateLimit e (snd nc) (sp_walletAddress params) (sp_endpoint params) config;
          matchCheck = checkMatchUniqueness e (snd rc) (sp_matchId params);
          matchCapCheck = checkDailyCap e (snd rc) (sp_walletAddress params) UsageMatch 1 config
      in [\<lparr> sc_name = ''WALLET_VALIDATION'', sc_passed = wc_valid walletCheck,
             sc_details = [S (wc_reason walletCheck)] \<rparr>,
          \<lparr> sc_name = ''REPLAY_PREVENTION'', sc_passed = valid (fst nc),
             sc_details = [S (reason (fst nc))] \<rparr>,
          \<lparr> sc_name = ''RATE_LIMIT'', sc_passed = rl_allowed (fst rc),
             sc_details = rl_details (fst rc) \<rparr>,
          \<lparr> sc_name = ''MATCH_UNIQUENESS'', sc_passed = unique matchCheck,
             sc_details = [S (mu_reason matchCheck)] \<rparr>,
          \<lparr> sc_name = ''DAILY_MATCH_CAP'', sc_passed = dc_allowed matchCapCheck,
             sc_details =
               (if dc_allowed matchCapCheck
                then [S ''Matches today: '', N (dc_usedToday matchCapCheck),
                      S ''/'', N (dailyMatchCap config)]
                else [S ''Daily match limit reached: '', N (dc_usedToday matchCapCheck),
                      S ''/'', N (dailyMatchCap config)]) \<rparr>])"
  by (cases "sp_rewardAmount params"; cases "sp_botConfidence params")
     (simp_all add: securityAcc_def Let_def addCheck_def addBotCheck_def split_beta
        split del: if_split cong: if_cong)

lemma performFullSecurityCheck_checks:
  "checks (fst (performFullSecurityCheck e st params config)) = fst (securityAcc e st params config)"
  by (simp add: performFullSecurityCheck_acc split_beta)

lemma wallet0_ok: "validateWalletAddress wallet0 = \<lparr> wc_valid = True, wc_reason = ''Valid Ethereum address'' \<rparr>"
  by (simp add: validateWalletAddress_def isEthereumAddress_def wallet0_def isHexDigit_def)

lemma storeAfterA_eq:
  "storeAfterA = \<lparr> mcp_nonces = [nonceA \<mapsto> \<lparr> nr_wallet_address = wallet0, nr_used_at = 1700000000000 \<rparr>],
                   mcp_rate_limits = [\<lparr> rl_wallet_address = wallet0, rl_endpoint = ''match-submit'',
                                        rl_created_at = 1700000000000 \<rparr>],
                   mcp_daily_usage = [], mcp_processed_matches = [] \<rparr>"
  unfolding storeAfterA_def performFullSecurityCheck_store
  by (simp add: checkRateLimit_def checkAndConsumeNonce_def insert_nonce_def
      delete_expired_nonces_def env0_def empty_store_def paramsOf_def DEFAULT_SECURITY_CONFIG_def
      Let_def fun_eq_iff)

lemmas security_defs =
  subcheckOutcomes_def checkRateLimit_def checkAndConsumeNonce_def insert_nonce_def
  delete_expired_nonces_def checkMatchUniqueness_def checkDailyCap_def select_single_def
  dayStart_def dayEnd_def msPerDay_def env0_def empty_store_def paramsOf_def
  DEFAULT_SECURITY_CONFIG_def Let_def failures_def spec_passed_def

lemma storeAfterB_eq:
  "storeAfterB = \<lparr> mcp_nonces = [nonceB \<mapsto> \<lparr> nr_wallet_address = wallet0, nr_used_at = 1700000400000 \<rparr>],
                   mcp_rate_limits = [\<lparr> rl_wallet_address = wallet0, rl_endpoint = ''match-submit'',
                                        rl_created_at = 1700000000000 \<rparr>,
                                      \<lparr> rl_wallet_address = wallet0, rl_endpoint = ''match-submit'',
                                        rl_created_at = 1700000400000 \<rparr>],
                   mcp_daily_usage = [], mcp_processed_matches = [] \<rparr>"
  unfolding storeAfterB_def performFullSecurityCheck_store storeAfterA_eq
  by (simp add: checkRateLimit_def checkAndConsumeNonce_def insert_nonce_def
      delete_expired_nonces_def env0_def paramsOf_def DEFAULT_SECURITY_CONFIG_def
      Let_def fun_eq_iff nonceA_def nonceB_def)

lemma first_check_passes:
  "passed (fst (performFullSecurityCheck env0 empty_store (paramsOf matchA nonceA)
                  DEFAULT_SECURITY_CONFIG))"
  by (simp add: performFullSecurityCheck_tracks)
     (simp add: security_defs wallet0_ok)

lemma second_check_passes:
  "passed (fst (performFullSecurityCheck (env0\<lparr> now := 1700000400000 \<rparr>) storeAfterA
                  (paramsOf matchB nonceB) DEFAULT_SECURITY_CONFIG))"
  by (simp add: performFullSecurityCheck_tracks storeAfterA_eq)
     (simp add: security_defs wallet0_ok nonceA_def nonceB_def)

lemma third_check_passes:
  "passed (fst (performFullSecurityCheck (env0\<lparr> now := 1700000400001 \<rparr>) storeAfterB
                  (paramsOf matchC nonceA) DEFAULT_SECURITY_CONFIG))"
  by (simp add: performFullSecurityCheck_tracks storeAfterB_eq)
     (simp add: security_defs wallet0_ok nonceA_def nonceB_def)

lemma passed_all_checks:
  "passed (fst (performFullSecurityCheck e st params config))
     = list_all sc_passed (checks (fst (performFullSecurityCheck e st params config)))"
  by (simp add: performFullSecurityCheck_acc split_beta)

lemma list_all_take: "list_all P xs \<Longrightarrow> list_all P (take n xs)"
  by (simp add: list_all_iff) (meson in_set_takeD)

lemma nth_of_take5: "take 5 xs = [a, b, c, d, f] \<Longrightarrow> xs ! 1 = b \<and> xs ! 2 = c \<and> xs ! 3 = d"
proof -
  assume h: "take 5 xs = [a, b, c, d, f]"
  have "xs ! 1 = take 5 xs ! 1" "xs ! 2 = take 5 xs ! 2" "xs ! 3 = take 5 xs ! 3"
    by simp_all
  then show ?thesis by (simp add: h)
qed

lemma passed_imp:
  assumes "passed (fst (performFullSecurityCheck e st params config))"
  shows "valid (fst (checkAndConsumeNonce e st (sp_nonce params) (sp_walletAddress params) config))
       \<and> unique (checkMatchUniqueness e
            (snd (checkRateLimit e
               (snd (checkAndConsumeNonce e st (sp_nonce params) (sp_walletAddress params) config))
               (sp_walletAddress params) (sp_endpoint params) config))
            (sp_matchId params))"
proof -
  have "list_all sc_passed (take 5 (fst (securityAcc e st params config)))"
    using assms unfolding passed_all_checks performFullSecurityCheck_checks
    by (rule list_all_take)
  then show ?thesis
    by (simp add: securityAcc_checks5 Let_def)
qed

lemma replay_entry:
  "checks (fst (performFullSecurityCheck e st params config)) ! 1 =
     \<lparr> sc_name = ''REPLAY_PREVENTION'',
       sc_passed = valid (fst (checkAndConsumeNonce e st (sp_nonce params)
                                  (sp_walletAddress params) config)),
       sc_details = [S (reason (fst (checkAndConsumeNonce e st (sp_nonce params)
                                  (sp_walletAddress params) config)))] \<rparr>"
  using nth_of_take5 [OF securityAcc_checks5 [of e st params config, unfolded Let_def]]
  by (simp add: performFullSecurityCheck_checks)

lemma rate_entry:
  "checks (fst (performFullSecurityCheck e st params config)) ! 2 =
     (let rc = fst (checkRateLimit e
               (snd (checkAndConsumeNonce e st (sp_nonce params) (sp_walletAddress params) config))
               (sp_walletAddress params) (sp_endpoint params) config)
      in \<lparr> sc_name = ''RATE_LIMIT'', sc_passed = rl_allowed rc, sc_details = rl_details rc \<rparr>)"
  using nth_of_take5 [OF securityAcc_checks5 [of e st params config, unfolded Let_def]]
  by (simp add: performFullSecurityCheck_checks Let_def)

lemma uniqueness_entry:
  "checks (fst (performFullSecurityCheck e st params config)) ! 3 =
     (let mc = checkMatchUniqueness e
            (snd (checkRateLimit e
               (snd (checkAndConsumeNonce e st (sp_nonce params) (sp_walletAddress params) config))
               (sp_walletAddress params) (sp_endpoint params) config))
            (sp_matchId params)
      in \<lparr> sc_name = ''MATCH_UNIQUENESS'', sc_passed = unique mc, sc_details = [S (mu_reason mc)] \<rparr>)"
  using nth_of_take5 [OF securityAcc_checks5 [of e st params config, unfolded Let_def]]
  by (simp add: performFullSecurityCheck_checks Let_def)

lemma checkRateLimit_nonces:
  "mcp_nonces (snd (checkRateLimit e st w ep config)) = mcp_nonces st"
  by (simp add: checkRateLimit_def Let_def)

lemma performFullSecurityCheck_nonces:
  "mcp_nonces (snd (performFullSecurityCheck e st params config))
     = mcp_nonces (snd (checkAndConsumeNonce e st (sp_nonce params) (sp_walletAddress params) config))"
  by (simp add: performFullSecurityCheck_store checkRateLimit_nonces)

lemma consumed_nonce_check:
  assumes "mcp_nonces st n \<noteq> None"
  shows "\<not> valid (fst (checkAndConsumeNonce e st n w config))"
    and "snd (checkAndConsumeNonce e st n w config) = st"
    and "\<not> nonce_select_fails e \<Longrightarrow>
         reason (fst (checkAndConsumeNonce e st n w config))
           = ''Nonce already used (replay attack detected)''"
  using assms by (auto simp: checkAndConsumeNonce_def Let_def)

lemma fresh_nonce_check:
  assumes "valid (fst (checkAndConsumeNonce e st n w config))" and "0 \<le> nonceExpiryMs config"
  shows "mcp_nonces st n = None"
    and "mcp_nonces (snd (checkAndConsumeNonce e st n w config)) n
           = Some \<lparr> nr_wallet_address = w, nr_used_at = now e \<rparr>"
  using assms
  by (auto simp: checkAndConsumeNonce_def insert_nonce_def delete_expired_nonces_def Let_def
      split: if_splits option.splits)

lemma retained_nonce_check:
  assumes "mcp_nonces st k = Some r" and "nr_used_at r \<ge> now e - nonceExpiryMs config"
  shows "mcp_nonces (snd (checkAndConsumeNonce e st n w config)) k = Some r"
  using assms
  by (auto simp: checkAndConsumeNonce_def insert_nonce_def delete_expired_nonces_def Let_def
      split: if_splits option.splits)

text \<open>
  C3, as amended. While a record for the nonce value is in the store, a security check
  submitting that value does not pass and leaves the nonce table as it was, and its
  \<open>REPLAY_PREVENTION\<close> entry carries the replay reason whenever the lookup itself succeeds.
  A check that passes found no record and leaves one stamped with the current time, and a
  record not older than \<open>nonceExpiryMs\<close> survives every check. So a value is consumed at
  most once while its record is retained.
\<close>

theorem consumed_nonce_rejected_while_retained:
  "(mcp_nonces st (sp_nonce params) \<noteq> None \<longrightarrow>
      \<not> passed (fst (performFullSecurityCheck e st params config)) \<and>
      mcp_nonces (snd (performFullSecurityCheck e st params config)) = mcp_nonces st \<and>
      (\<not> nonce_select_fails e \<longrightarrow>
         checks (fst (performFullSecurityCheck e st params config)) ! 1 =
           \<lparr> sc_name = ''REPLAY_PREVENTION'', sc_passed = False,
             sc_details = [S ''Nonce already used (replay attack detected)''] \<rparr>)) \<and>
   (passed (fst (performFullSecurityCheck e' st' params' config')) \<and> 0 \<le> nonceExpiryMs config' \<longrightarrow>
      mcp_nonces st' (sp_nonce params') = None \<and>
      mcp_nonces (snd (performFullSecurityCheck e' st' params' config')) (sp_nonce params')
        = Some \<lparr> nr_wallet_address = sp_walletAddress params', nr_used_at = now e' \<rparr>) \<and>
   (mcp_nonces st'' k = Some r \<and> nr_used_at r \<ge> now e'' - nonceExpiryMs config'' \<longrightarrow>
      mcp_nonces (snd (performFullSecurityCheck e'' st'' params'' config'')) k = Some r)"
proof (intro conjI impI)
  assume h: "mcp_nonces st (sp_nonce params) \<noteq> None"
  show "\<not> passed (fst (performFullSecurityCheck e st params config))"
    using passed_imp [of e st params config] consumed_nonce_check(1) [OF h] by blast
  show "mcp_nonces (snd (performFullSecurityCheck e st params config)) = mcp_nonces st"
    by (simp add: performFullSecurityCheck_nonces consumed_nonce_check(2) [OF h])
  assume "\<not> nonce_select_fails e"
  then show "checks (fst (performFullSecurityCheck e st params config)) ! 1 =
           \<lparr> sc_name = ''REPLAY_PREVENTION'', sc_passed = False,
             sc_details = [S ''Nonce already used (replay attack detected)''] \<rparr>"
    unfolding replay_entry
    using consumed_nonce_check(1) [OF h] consumed_nonce_check(3) [OF h]
    by simp
next
  assume h: "passed (fst (performFullSecurityCheck e' st' params' config')) \<and>
             0 \<le> nonceExpiryMs config'"
  then have v: "valid (fst (checkAndConsumeNonce e' st' (sp_nonce params')
                              (sp_walletAddress params') config'))"
    using passed_imp by blast
  show "mcp_nonces st' (sp_nonce params') = None"
    using fresh_nonce_check(1) [OF v] h by blast
  show "mcp_nonces (snd (performFullSecurityCheck e' st' params' config')) (sp_nonce params')
        = Some \<lparr> nr_wallet_address = sp_walletAddress params', nr_used_at = now e' \<rparr>"
    using fresh_nonce_check(2) [OF v] h by (simp add: performFullSecurityCheck_nonces)
next
  assume "mcp_nonces st'' k = Some r \<and> nr_used_at r \<ge> now e'' - nonceExpiryMs config''"
  then show "mcp_nonces (snd (performFullSecurityCheck e'' st'' params'' config'')) k = Some r"
    by (simp add: performFullSecurityCheck_nonces retained_nonce_check)
qed

theorem consumed_nonce_rejected_while_retained_witness:
  "mcp_nonces storeAfterA (sp_nonce (paramsOf matchB nonceA)) \<noteq> None \<and>
   \<not> nonce_select_fails (env0\<lparr> now := 1700000200000 \<rparr>) \<and>
   \<not> passed (fst (performFullSecurityCheck (env0\<lparr> now := 1700000200000 \<rparr>) storeAfterA
                     (paramsOf matchB nonceA) DEFAULT_SECURITY_CONFIG)) \<and>
   mcp_nonces (snd (performFullSecurityCheck (env0\<lparr> now := 1700000200000 \<rparr>) storeAfterA
                     (paramsOf matchB nonceA) DEFAULT_SECURITY_CONFIG)) = mcp_nonces storeAfterA \<and>
   checks (fst (performFullSecurityCheck (env0\<lparr> now := 1700000200000 \<rparr>) storeAfterA
                     (paramsOf matchB nonceA) DEFAULT_SECURITY_CONFIG)) ! 1 =
     \<lparr> sc_name = ''REPLAY_PREVENTION'', sc_passed = False,
       sc_details = [S ''Nonce already used (replay attack detected)''] \<rparr> \<and>
   passed (fst (performFullSecurityCheck env0 empty_store (paramsOf matchA nonceA)
                  DEFAULT_SECURITY_CONFIG)) \<and>
   0 \<le> nonceExpiryMs DEFAULT_SECURITY_CONFIG \<and>
   mcp_nonces (snd (performFullSecurityCheck env0 empty_store (paramsOf matchA nonceA)
                      DEFAULT_SECURITY_CONFIG)) nonceA
     = Some \<lparr> nr_wallet_address = wallet0, nr_used_at = 1700000000000 \<rparr> \<and>
   mcp_nonces storeAfterA nonceA = Some \<lparr> nr_wallet_address = wallet0, nr_used_at = 1700000000000 \<rparr> \<and>
   nr_used_at \<lparr> nr_wallet_address = wallet0, nr_used_at = 1700000000000 \<rparr>
     \<ge> now (env0\<lparr> now := 1700000200000 \<rparr>) - nonceExpiryMs DEFAULT_SECURITY_CONFIG \<and>
   mcp_nonces (snd (performFullSecurityCheck (env0\<lparr> now := 1700000200000 \<rparr>) storeAfterA
                      (paramsOf matchB nonceB) DEFAULT_SECURITY_CONFIG)) nonceA
     = Some \<lparr> nr_wallet_address = wallet0, nr_used_at = 1700000000000 \<rparr>"
  using consumed_nonce_rejected_while_retained
    [of storeAfterA "paramsOf matchB nonceA" "env0\<lparr> now := 1700000200000 \<rparr>"
        DEFAULT_SECURITY_CONFIG
        env0 empty_store "paramsOf matchA nonceA" DEFAULT_SECURITY_CONFIG
        storeAfterA nonceA "\<lparr> nr_wallet_address = wallet0, nr_used_at = 1700000000000 \<rparr>"
        "env0\<lparr> now := 1700000200000 \<rparr>" DEFAULT_SECURITY_CONFIG "paramsOf matchB nonceB"]
    first_check_passes
  by (simp add: storeAfterA_eq paramsOf_def env0_def DEFAULT_SECURITY_CONFIG_def)

text \<open>
  The claim's last clause fails: nonce A is consumed, nonce B is consumed 400 seconds
  later (the cleanup that follows deletes the record of A, older than five minutes), and
  a third check with nonce A passes again. And while the record of A is still there, a
  check whose nonce lookup errors is rejected with a database reason, not a replay reason.
\<close>

theorem nonce_consumed_twice_counterexample:
  "passed (fst (performFullSecurityCheck env0 empty_store (paramsOf matchA nonceA)
                  DEFAULT_SECURITY_CONFIG)) \<and>
   passed (fst (performFullSecurityCheck (env0\<lparr> now := 1700000400000 \<rparr>) storeAfterA
                  (paramsOf matchB nonceB) DEFAULT_SECURITY_CONFIG)) \<and>
   passed (fst (performFullSecurityCheck (env0\<lparr> now := 1700000400001 \<rparr>) storeAfterB
                  (paramsOf matchC nonceA) DEFAULT_SECURITY_CONFIG)) \<and>
   sp_nonce (paramsOf matchC nonceA) = sp_nonce (paramsOf matchA nonceA) \<and>
   mcp_nonces storeAfterA nonceA \<noteq> None \<and>
   checks (fst (performFullSecurityCheck
                  (env0\<lparr> now := 1700000200000, nonce_select_fails := True \<rparr>) storeAfterA
                  (paramsOf matchB nonceA) DEFAULT_SECURITY_CONFIG)) ! 1 =
     \<lparr> sc_name = ''REPLAY_PREVENTION'', sc_passed = False,
       sc_details = [S ''Database error during nonce check''] \<rparr>"
proof -
  have "checks (fst (performFullSecurityCheck
                  (env0\<lparr> now := 1700000200000, nonce_select_fails := True \<rparr>) storeAfterA
                  (paramsOf matchB nonceA) DEFAULT_SECURITY_CONFIG)) ! 1 =
     \<lparr> sc_name = ''REPLAY_PREVENTION'', sc_passed = False,
       sc_details = [S ''Database error during nonce check''] \<rparr>"
    unfolding replay_entry by (simp add: checkAndConsumeNonce_def env0_def)
  then show ?thesis
    using first_check_passes second_check_passes third_check_passes
    by (simp add: paramsOf_def storeAfterA_eq)
qed

text \<open>
  C4. When the store lookup of the rate-limit count fails, \<open>checkRateLimit\<close> allows the
  request, records nothing, and says so in its details, and the \<open>RATE_LIMIT\<close> entry of the
  full check passes. When the lookup of the match id fails, \<open>checkMatchUniqueness\<close> reports
  the match as not unique, and the full check does not pass.
\<close>

theorem rate_limit_fails_open_uniqueness_fails_closed:
  "(rate_count_fails e \<longrightarrow>
      checkRateLimit e st w ep config =
        (\<lparr> rl_allowed = True, rl_remaining = rateLimitMaxRequests config,
           rl_resetAt = now e + rateLimitWindowMs config,
           rl_details = [S ''Rate limit check failed, allowing request''] \<rparr>, st) \<and>
      checks (fst (performFullSecurityCheck e st params config)) ! 2 =
        \<lparr> sc_name = ''RATE_LIMIT'', sc_passed = True,
          sc_details = [S ''Rate limit check failed, allowing request''] \<rparr>) \<and>
   (match_select_fails e \<longrightarrow>
      checkMatchUniqueness e st m =
        \<lparr> unique = False, mu_reason = ''Database error during match check'' \<rparr> \<and>
      \<not> passed (fst (performFullSecurityCheck e st params config)) \<and>
      checks (fst (performFullSecurityCheck e st params config)) ! 3 =
        \<lparr> sc_name = ''MATCH_UNIQUENESS'', sc_passed = False,
          sc_details = [S ''Database error during match check''] \<rparr>)"
proof (intro conjI impI)
  assume h: "rate_count_fails e"
  show "checkRateLimit e st w ep config =
        (\<lparr> rl_allowed = True, rl_remaining = rateLimitMaxRequests config,
           rl_resetAt = now e + rateLimitWindowMs config,
           rl_details = [S ''Rate limit check failed, allowing request''] \<rparr>, st)"
    using h by (simp add: checkRateLimit_def)
  show "checks (fst (performFullSecurityCheck e st params config)) ! 2 =
        \<lparr> sc_name = ''RATE_LIMIT'', sc_passed = True,
          sc_details = [S ''Rate limit check failed, allowing request''] \<rparr>"
    unfolding rate_entry using h by (simp add: checkRateLimit_def)
next
  assume h: "match_select_fails e"
  have u: "\<And>s. checkMatchUniqueness e s m' =
        \<lparr> unique = False, mu_reason = ''Database error during match check'' \<rparr>" for m'
    using h by (simp add: checkMatchUniqueness_def select_single_def)
  show "checkMatchUniqueness e st m =
        \<lparr> unique = False, mu_reason = ''Database error during match check'' \<rparr>"
    by (rule u)
  show "\<not> passed (fst (performFullSecurityCheck e st params config))"
    using passed_imp [of e st params config] by (auto simp: u)
  show "checks (fst (performFullSecurityCheck e st params config)) ! 3 =
        \<lparr> sc_name = ''MATCH_UNIQUENESS'', sc_passed = False,
          sc_details = [S ''Database error during match check''] \<rparr>"
    unfolding uniqueness_entry by (simp add: u)
qed

theorem rate_limit_fails_open_uniqueness_fails_closed_witness:
  "rate_count_fails (env0\<lparr> rate_count_fails := True, match_select_fails := True \<rparr>) \<and>
   match_select_fails (env0\<lparr> rate_count_fails := True, match_select_fails := True \<rparr>) \<and>
   checkRateLimit (env0\<lparr> rate_count_fails := True, match_select_fails := True \<rparr>) empty_store
       wallet0 ''match-submit'' DEFAULT_SECURITY_CONFIG =
     (\<lparr> rl_allowed = True, rl_remaining = 30, rl_resetAt = 1700000060000,
        rl_details = [S ''Rate limit check failed, allowing request''] \<rparr>, empty_store) \<and>
   checkMatchUniqueness (env0\<lparr> rate_count_fails := True, match_select_fails := True \<rparr>)
       empty_store matchA =
     \<lparr> unique = False, mu_reason = ''Database error during match check'' \<rparr> \<and>
   \<not> passed (fst (performFullSecurityCheck
                     (env0\<lparr> rate_count_fails := True, match_select_fails := True \<rparr>)
                     empty_store (paramsOf matchA nonceA) DEFAULT_SECURITY_CONFIG))"
  using rate_limit_fails_open_uniqueness_fails_closed
    [of "env0\<lparr> rate_count_fails := True, match_select_fails := True \<rparr>" empty_store
        wallet0 "''match-submit''" DEFAULT_SECURITY_CONFIG "paramsOf matchA nonceA" matchA]
  by (simp add: env0_def DEFAULT_SECURITY_CONFIG_def)



section \<open>Properties of the match validator\<close>

lemmas validator_defs =
  validateMatch_def validateDuration_def validateInputVariance_def validateKillCount_def
  validateFrameData_def analyzeWinPatterns_def detectRapidMatches_def rejected_def
  select_recent_matches_def select_rapid_matches_def DURATION_def or_default_def
  MIN_TIME_PER_KILL_def ZERO_THRESHOLD_def LOW_THRESHOLD_def NORMAL_MAX_def
  MAX_CONSECUTIVE_WINS_def MAX_WIN_RATE_24H_def MIN_MATCHES_FOR_RATE_def
  RAPID_MATCH_WINDOW_MS_def MAX_RAPID_MATCHES_def EXPECTED_TICK_RATE_def
  TICK_RATE_TOLERANCE_def RISK_ALLOW_def RISK_FLAG_def RISK_REJECT_def Let_def

text \<open>
  C2 does not hold of the source, which rejects on the final score only at 100
  (\<open>RISK_THRESHOLDS.REJECT\<close>) and flags from 75 (\<open>RISK_THRESHOLDS.FLAG\<close>): an input with
  score 90 is allowed with reason code \<open>VALID\<close> and the flagged-for-review message, and an
  input with score 60 is allowed with the plain message.
\<close>

theorem validateMatch_final_decision_at_90_and_60:
  "allowed (validateMatch env0 empty_store (scoredInput [''a'', ''b'', ''c''])) \<and>
   reasonCode (validateMatch env0 empty_store (scoredInput [''a'', ''b'', ''c''])) = Some VALID \<and>
   reasonMessage (validateMatch env0 empty_store (scoredInput [''a'', ''b'', ''c'']))
     = [S ''Match allowed but flagged for review''] \<and>
   vr_riskScore (validateMatch env0 empty_store (scoredInput [''a'', ''b'', ''c''])) = 90 \<and>
   allowed (validateMatch env0 empty_store (scoredInput [])) \<and>
   reasonCode (validateMatch env0 empty_store (scoredInput [])) = Some VALID \<and>
   reasonMessage (validateMatch env0 empty_store (scoredInput []))
     = [S ''Match validated successfully''] \<and>
   vr_riskScore (validateMatch env0 empty_store (scoredInput [])) = 60"
  by (simp add: validator_defs scoredInput_def env0_def empty_store_def)

lemma countConsecutiveWins_ge:
  "n \<le> length rows \<Longrightarrow> list_all (\<lambda>m. pm_placement m = 1) (take n rows) \<Longrightarrow>
   k + n \<le> countConsecutiveWins rows k"
proof (induction rows arbitrary: n k)
  case Nil
  then show ?case by simp
next
  case (Cons m ms)
  show ?case
  proof (cases n)
    case 0
    have "k \<le> countConsecutiveWins ms (k + 1)"
      using Cons.IH [of 0 "k + 1"] by simp
    then show ?thesis using 0 by simp
  next
    case (Suc n')
    then have "pm_placement m = 1" "n' \<le> length ms"
      "list_all (\<lambda>m. pm_placement m = 1) (take n' ms)"
      using Cons.prems by simp_all
    then show ?thesis
      using Cons.IH [of n' "k + 1"] Suc by simp
  qed
qed

lemma analyzeWinPatterns_streak:
  assumes "mi_placement input = 1"
    and "select_recent_matches e st (mi_walletAddress input) = Some rows"
    and "20 \<le> length rows"
    and "list_all (\<lambda>m. pm_placement m = 1) (take 20 rows)"
  shows "cr_reject (analyzeWinPatterns e st input)"
    and "cr_reasonCode (analyzeWinPatterns e st input) = Some SUSPICIOUS_WIN_STREAK"
proof -
  have "0 + 20 \<le> countConsecutiveWins rows 0"
    using assms(3,4) by (rule countConsecutiveWins_ge)
  then have c: "20 \<le> countConsecutiveWins rows 0 + 1" by simp
  have l: "\<not> length rows < 5" using assms(3) by simp
  show "cr_reject (analyzeWinPatterns e st input)"
    and "cr_reasonCode (analyzeWinPatterns e st input) = Some SUSPICIOUS_WIN_STREAK"
    using c l assms(1,2)
    by (simp_all add: analyzeWinPatterns_def Let_def MIN_MATCHES_FOR_RATE_def
        MAX_CONSECUTIVE_WINS_def)
qed

text \<open>
  C7. For a first-place submission whose duration, input-variance and kill-count checks do
  not reject, if the history lookup succeeds and its first twenty rows (the most recent
  matches of the last 24 hours) are all first places, \<open>validateMatch\<close> rejects with reason
  code \<open>SUSPICIOUS_WIN_STREAK\<close> and risk score 100.
\<close>

theorem validateMatch_win_streak_rejected:
  assumes "mi_placement input = 1"
    and "\<not> cr_reject (validateDuration input)"
    and "\<not> cr_reject (validateInputVariance input)"
    and "\<not> cr_reject (validateKillCount input)"
    and "select_recent_matches e st (mi_walletAddress input) = Some rows"
    and "20 \<le> length rows"
    and "list_all (\<lambda>m. pm_placement m = 1) (take 20 rows)"
  shows "allowed (validateMatch e st input) = False \<and>
         reasonCode (validateMatch e st input) = Some SUSPICIOUS_WIN_STREAK \<and>
         vr_riskScore (validateMatch e st input) = 100"
  using assms(2,3,4) analyzeWinPatterns_streak [OF assms(1,5,6,7)]
  by (simp add: validateMatch_def Let_def rejected_def)

lemma winStore_rows:
  "select_recent_matches env0 winStore wallet0 = Some (rev (map winRow [0..<20]))"
  by (simp add: select_recent_matches_def winStore_def empty_store_def env0_def winRow_def
      upt_rec numeral_nat)

theorem validateMatch_win_streak_rejected_witness:
  "mi_placement (scoredInput []) = 1 \<and>
   \<not> cr_reject (validateDuration (scoredInput [])) \<and>
   \<not> cr_reject (validateInputVariance (scoredInput [])) \<and>
   \<not> cr_reject (validateKillCount (scoredInput [])) \<and>
   select_recent_matches env0 winStore (mi_walletAddress (scoredInput []))
     = Some (rev (map winRow [0..<20])) \<and>
   20 \<le> length (rev (map winRow [0..<20])) \<and>
   list_all (\<lambda>m. pm_placement m = 1) (take 20 (rev (map winRow [0..<20]))) \<and>
   allowed (validateMatch env0 winStore (scoredInput [])) = False \<and>
   reasonCode (validateMatch env0 winStore (scoredInput [])) = Some SUSPICIOUS_WIN_STREAK \<and>
   vr_riskScore (validateMatch env0 winStore (scoredInput [])) = 100"
proof -
  have i: "mi_placement (scoredInput []) = 1" "mi_walletAddress (scoredInput []) = wallet0"
    "\<not> cr_reject (validateDuration (scoredInput []))"
    "\<not> cr_reject (validateInputVariance (scoredInput []))"
    "\<not> cr_reject (validateKillCount (scoredInput []))"
    by (simp_all add: scoredInput_def validator_defs)
  have r: "20 \<le> length (rev (map winRow [0..<20]))"
    "list_all (\<lambda>m. pm_placement m = 1) (take 20 (rev (map winRow [0..<20])))"
    by (simp_all add: list_all_iff winRow_def)
  show ?thesis
    using validateMatch_win_streak_rejected
      [of "scoredInput []" env0 winStore "rev (map winRow [0..<20])"] i r winStore_rows
    by simp
qed

section \<open>Properties of the match submission endpoint\<close>





















text \<open>
  C9. The handler passes neither a reward amount nor a bot confidence to
  \<open>performFullSecurityCheck\<close>, so the security result, and with it the \<open>securityChecks\<close> of
  every response that carries them, has exactly the five entries \<open>WALLET_VALIDATION\<close>,
  \<open>REPLAY_PREVENTION\<close>, \<open>RATE_LIMIT\<close>, \<open>MATCH_UNIQUENESS\<close>, \<open>DAILY_MATCH_CAP\<close>, in this order.
\<close>

theorem match_submit_runs_five_security_checks:
  "sp_rewardAmount (submitSecurityParams p) = None \<and>
   sp_botConfidence (submitSecurityParams p) = None \<and>
   map sc_name (checks (fst (performFullSecurityCheck e st (submitSecurityParams p)
                               DEFAULT_SECURITY_CONFIG)))
     = [''WALLET_VALIDATION'', ''REPLAY_PREVENTION'', ''RATE_LIMIT'', ''MATCH_UNIQUENESS'',
        ''DAILY_MATCH_CAP''] \<and>
   (case fst (matchSubmitHandler e st p) of
      BadRequest err \<Rightarrow> True
    | Forbidden err cs risk \<Rightarrow>
        map sc_name cs = [''WALLET_VALIDATION'', ''REPLAY_PREVENTION'', ''RATE_LIMIT'',
                          ''MATCH_UNIQUENESS'', ''DAILY_MATCH_CAP'']
    | Ok d \<Rightarrow>
        map_option (map sc_name) (securityChecks d)
          = Some [''WALLET_VALIDATION'', ''REPLAY_PREVENTION'', ''RATE_LIMIT'',
                  ''MATCH_UNIQUENESS'', ''DAILY_MATCH_CAP''])"
proof -
  have n: "map sc_name (checks (fst (performFullSecurityCheck e st (submitSecurityParams p)
                               DEFAULT_SECURITY_CONFIG)))
     = [''WALLET_VALIDATION'', ''REPLAY_PREVENTION'', ''RATE_LIMIT'', ''MATCH_UNIQUENESS'',
        ''DAILY_MATCH_CAP'']"
    by (simp add: performFullSecurityCheck_tracks)
       (simp add: subcheckOutcomes_def submitSecurityParams_def Let_def split_beta)
  show ?thesis
    by (simp add: n matchSubmitHandler_def Let_def split_beta)
       (simp add: submitSecurityParams_def)
qed


end
